theory Spec2Isabelle
  imports Complex_Main "HOL-Library.Word" "HOL-Library.AList"
begin

section \<open>Host terms and the term interface\<close>

text \<open>
  The values that cross the boundary are Erlang terms. Lists are kept as cons cells, so
  that an improper list is a value of the model and \<open>enif_get_list_length\<close> can fail
  on it. A map is an association list read with \<open>map_of\<close>; integers are unbounded,
  floats are a constructor of their own (no arithmetic is ever done on them, they are
  only moved), and atom and binary contents are Latin-1 strings.
\<close>

datatype eterm =
    EAtom string
  | EInt int
  | EDouble real
  | EBinary string
  | ENil
  | ECons eterm eterm
  | EMap "(eterm \<times> eterm) list"
  | ETuple "eterm list"

type_synonym uint32 = "32 word"

definition enif_make_atom :: "string \<Rightarrow> eterm" where
  "enif_make_atom s = EAtom s"

definition enif_make_uint :: "uint32 \<Rightarrow> eterm" where
  "enif_make_uint w = EInt (uint w)"

definition enif_make_double :: "real \<Rightarrow> eterm" where
  "enif_make_double d = EDouble d"

definition enif_make_list_cell :: "eterm \<Rightarrow> eterm \<Rightarrow> eterm" where
  "enif_make_list_cell h t = ECons h t"

primrec enif_make_list_from :: "eterm list \<Rightarrow> eterm" where
  "enif_make_list_from [] = ENil"
| "enif_make_list_from (x # xs) = enif_make_list_cell x (enif_make_list_from xs)"

text \<open>\<open>enif_make_string\<close> with Latin-1 encoding: the list of the character codes.\<close>

definition enif_make_string :: "string \<Rightarrow> eterm" where
  "enif_make_string s = enif_make_list_from (map (\<lambda>c. EInt (of_char c)) s)"

definition enif_make_new_map :: eterm where
  "enif_make_new_map = EMap []"

text \<open>\<open>enif_make_map_put\<close> returns false on a term that is not a map and leaves the
  output untouched; every caller passes the map itself as the output.\<close>

definition enif_make_map_put :: "eterm \<Rightarrow> eterm \<Rightarrow> eterm \<Rightarrow> eterm" where
  "enif_make_map_put m k v = (case m of EMap kvs \<Rightarrow> EMap (AList.update k v kvs) | _ \<Rightarrow> m)"

definition enif_get_map_value :: "eterm \<Rightarrow> eterm \<Rightarrow> eterm option" where
  "enif_get_map_value m k = (case m of EMap kvs \<Rightarrow> map_of kvs k | _ \<Rightarrow> None)"

definition enif_get_list_cell :: "eterm \<Rightarrow> (eterm \<times> eterm) option" where
  "enif_get_list_cell t = (case t of ECons h rest \<Rightarrow> Some (h, rest) | _ \<Rightarrow> None)"

text \<open>The elements of a proper list; \<open>None\<close> on an improper list and on any other term.
  \<open>enif_get_list_length\<close> succeeds on proper lists only. Lengths are natural numbers: a
  list too long for an \<open>unsigned int\<close> does not fit in memory.\<close>

fun list_elems :: "eterm \<Rightarrow> eterm list option" where
  "list_elems ENil = Some []"
| "list_elems (ECons h t) = map_option (\<lambda>xs. h # xs) (list_elems t)"
| "list_elems _ = None"

definition enif_get_list_length :: "eterm \<Rightarrow> nat option" where
  "enif_get_list_length t = map_option length (list_elems t)"

text \<open>\<open>enif_get_uint\<close> succeeds on an integer that fits an \<open>unsigned int\<close> (32 bits).\<close>

definition enif_get_uint :: "eterm \<Rightarrow> uint32 option" where
  "enif_get_uint t =
     (case t of
        EInt i \<Rightarrow> if 0 \<le> i \<and> i < 2 ^ 32 then Some (word_of_int i) else None
      | _ \<Rightarrow> None)"

text \<open>\<open>enif_get_double\<close> succeeds on a float only: an integer term is refused.\<close>

definition enif_get_double :: "eterm \<Rightarrow> real option" where
  "enif_get_double t = (case t of EDouble d \<Rightarrow> Some d | _ \<Rightarrow> None)"

text \<open>A C string ends at its first NUL.\<close>

definition c_str :: "string \<Rightarrow> string" where
  "c_str s = takeWhile (\<lambda>c. c \<noteq> CHR 0x00) s"

text \<open>\<open>enif_get_atom\<close> into a buffer of \<open>buf_size\<close> bytes: the atom's characters and a
  terminating NUL, when they fit. The result is the buffer as written.\<close>

definition enif_get_atom :: "eterm \<Rightarrow> nat \<Rightarrow> string option" where
  "enif_get_atom t buf_size =
     (case t of
        EAtom s \<Rightarrow>
          if buf_size = 0 \<or> buf_size \<le> length s then None else Some (s @ [CHR 0x00])
      | _ \<Rightarrow> None)"

definition strcmp_eq :: "string \<Rightarrow> string \<Rightarrow> bool" where
  "strcmp_eq a b = (c_str a = c_str b)"

section \<open>The parsed scene (read side)\<close>

type_synonym ufbx_vec2 = "real \<times> real"
type_synonym ufbx_vec3 = "real \<times> real \<times> real"
type_synonym ufbx_vec4 = "real \<times> real \<times> real \<times> real"

text \<open>A \<open>ufbx_string\<close> is its bytes; its length field is the length of the list.\<close>

type_synonym ufbx_string = string

record ufbx_transform =
  translation :: ufbx_vec3
  rotation :: ufbx_vec4
  scale :: ufbx_vec3

text \<open>Pointers to other elements are read only for the target's \<open>typed_id\<close>, so a
  pointer is the target's id, and a null pointer is \<open>None\<close>.\<close>

record ufbx_node =
  node_name :: ufbx_string
  node_typed_id :: uint32
  node_parent :: "uint32 option"
  node_children :: "uint32 list"
  node_local_transform :: ufbx_transform
  node_mesh :: "uint32 option"

record 'v ufbx_vertex_attrib =
  attrib_exists :: bool
  attrib_values :: "'v list"
  attrib_indices :: "uint32 list"

record ufbx_mesh =
  mesh_typed_id :: uint32
  mesh_name :: ufbx_string
  vertex_position :: "ufbx_vec3 ufbx_vertex_attrib"
  vertex_normal :: "ufbx_vec3 ufbx_vertex_attrib"
  vertex_uv :: "ufbx_vec2 ufbx_vertex_attrib"
  mesh_materials :: "uint32 list"

record ufbx_material_map =
  has_value :: bool
  value_components :: int
  value_vec3 :: ufbx_vec3

record ufbx_material =
  material_typed_id :: uint32
  material_name :: ufbx_string
  pbr_base_color :: ufbx_material_map
  pbr_specular_color :: ufbx_material_map
  pbr_emission_color :: ufbx_material_map
  fbx_diffuse_color :: ufbx_material_map
  fbx_specular_color :: ufbx_material_map
  fbx_emission_color :: ufbx_material_map

record ufbx_texture =
  texture_typed_id :: uint32
  texture_name :: ufbx_string
  texture_filename :: ufbx_string

section \<open>Extraction helpers\<close>

definition make_vec3 :: "ufbx_vec3 \<Rightarrow> eterm" where
  "make_vec3 vec =
     (case vec of (x, y, z) \<Rightarrow>
        enif_make_list_from [enif_make_double x, enif_make_double y, enif_make_double z])"

definition make_vec4 :: "ufbx_vec4 \<Rightarrow> eterm" where
  "make_vec4 vec =
     (case vec of (x, y, z, w) \<Rightarrow>
        enif_make_list_from
          [enif_make_double x, enif_make_double y, enif_make_double z, enif_make_double w])"

text \<open>\<open>alloc\<close> says whether \<open>enif_alloc_binary\<close> of a given size succeeds.\<close>

definition make_string :: "(nat \<Rightarrow> bool) \<Rightarrow> ufbx_string \<Rightarrow> eterm" where
  "make_string alloc str =
     (if length str = 0 then enif_make_string ''''
      else if \<not> alloc (length str) then enif_make_atom ''error''
      else EBinary str)"

text \<open>The list builders run from the last element to the first and prepend, so the
  result is in index order.\<close>

primrec make_vec3_list :: "ufbx_vec3 list \<Rightarrow> eterm" where
  "make_vec3_list [] = ENil"
| "make_vec3_list (v # vs) = enif_make_list_cell (make_vec3 v) (make_vec3_list vs)"

primrec make_uint32_list :: "uint32 list \<Rightarrow> eterm" where
  "make_uint32_list [] = ENil"
| "make_uint32_list (v # vs) = enif_make_list_cell (enif_make_uint v) (make_uint32_list vs)"

primrec make_vec2_list :: "ufbx_vec2 list \<Rightarrow> eterm" where
  "make_vec2_list [] = ENil"
| "make_vec2_list (uv # uvs) =
     enif_make_list_cell
       (enif_make_list_from [enif_make_double (fst uv), enif_make_double (snd uv)])
       (make_vec2_list uvs)"

text \<open>The \<open>keys\<close>/\<open>values\<close> arrays of an extractor, put into a fresh map in index order.\<close>

definition build_map :: "(eterm \<times> eterm) list \<Rightarrow> eterm" where
  "build_map kvs = foldl (\<lambda>m kv. enif_make_map_put m (fst kv) (snd kv)) enif_make_new_map kvs"

section \<open>Extractors\<close>

definition extract_node :: "(nat \<Rightarrow> bool) \<Rightarrow> ufbx_node \<Rightarrow> uint32 \<Rightarrow> eterm" where
  "extract_node alloc node node_id =
     build_map
       ([(enif_make_atom ''id'', enif_make_uint node_id),
         (enif_make_atom ''name'', make_string alloc (node_name node))]
        @ (case node_parent node of
             Some p \<Rightarrow> [(enif_make_atom ''parent_id'', enif_make_uint p)]
           | None \<Rightarrow> [])
        @ (if length (node_children node) > 0
           then [(enif_make_atom ''children'', make_uint32_list (node_children node))]
           else [])
        @ [(enif_make_atom ''translation'',
              make_vec3 (translation (node_local_transform node))),
           (enif_make_atom ''rotation'', make_vec4 (rotation (node_local_transform node))),
           (enif_make_atom ''scale'', make_vec3 (scale (node_local_transform node)))]
        @ (case node_mesh node of
             Some m \<Rightarrow> [(enif_make_atom ''mesh_id'', enif_make_uint m)]
           | None \<Rightarrow> []))"

definition extract_mesh :: "(nat \<Rightarrow> bool) \<Rightarrow> ufbx_mesh \<Rightarrow> eterm" where
  "extract_mesh alloc mesh =
     build_map
       ([(enif_make_atom ''id'', enif_make_uint (mesh_typed_id mesh)),
         (enif_make_atom ''name'', make_string alloc (mesh_name mesh))]
        @ (if attrib_exists (vertex_position mesh)
              \<and> length (attrib_values (vertex_position mesh)) > 0
           then [(enif_make_atom ''positions'',
                    make_vec3_list (attrib_values (vertex_position mesh)))]
                @ (if length (attrib_indices (vertex_position mesh)) > 0
                   then [(enif_make_atom ''indices'',
                            make_uint32_list (attrib_indices (vertex_position mesh)))]
                   else [])
           else [])
        @ (if attrib_exists (vertex_normal mesh)
              \<and> length (attrib_values (vertex_normal mesh)) > 0
           then [(enif_make_atom ''normals'',
                    make_vec3_list (attrib_values (vertex_normal mesh)))]
           else [])
        @ (if attrib_exists (vertex_uv mesh) \<and> length (attrib_values (vertex_uv mesh)) > 0
           then [(enif_make_atom ''texcoords'', make_vec2_list (attrib_values (vertex_uv mesh)))]
           else [])
        @ (if length (mesh_materials mesh) > 0
           then [(enif_make_atom ''material_ids'', make_uint32_list (mesh_materials mesh))]
           else []))"

text \<open>The test the extractor applies to every colour source:
  \<open>has_value && value_components >= 3\<close>.\<close>

definition has_vec3 :: "ufbx_material_map \<Rightarrow> bool" where
  "has_vec3 c = (has_value c \<and> value_components c \<ge> 3)"

text \<open>One colour field of a material: the PBR map when it passes the test, else the legacy
  map when that passes, else no entry.\<close>

definition color_entry :: "string \<Rightarrow> ufbx_material_map \<Rightarrow> ufbx_material_map
    \<Rightarrow> (eterm \<times> eterm) list" where
  "color_entry key pbr fbx =
     (if has_vec3 pbr
      then [(enif_make_atom key, make_vec3 (value_vec3 pbr))]
      else if has_vec3 fbx
      then [(enif_make_atom key, make_vec3 (value_vec3 fbx))]
      else [])"

definition extract_material :: "(nat \<Rightarrow> bool) \<Rightarrow> ufbx_material \<Rightarrow> eterm" where
  "extract_material alloc material =
     build_map
       ([(enif_make_atom ''id'', enif_make_uint (material_typed_id material)),
         (enif_make_atom ''name'', make_string alloc (material_name material))]
        @ color_entry ''diffuse_color'' (pbr_base_color material) (fbx_diffuse_color material)
        @ color_entry ''specular_color'' (pbr_specular_color material)
            (fbx_specular_color material)
        @ color_entry ''emissive_color'' (pbr_emission_color material)
            (fbx_emission_color material))"

definition extract_texture :: "(nat \<Rightarrow> bool) \<Rightarrow> ufbx_texture \<Rightarrow> eterm" where
  "extract_texture alloc texture =
     build_map
       ([(enif_make_atom ''id'', enif_make_uint (texture_typed_id texture)),
         (enif_make_atom ''name'', make_string alloc (texture_name texture))]
        @ (if length (texture_filename texture) > 0
           then [(enif_make_atom ''file_path'', make_string alloc (texture_filename texture))]
           else []))"

section \<open>Baked animation\<close>

record ufbx_baked_vec3 =
  vec3_time :: real
  vec3_value :: ufbx_vec3

record ufbx_baked_quat =
  quat_time :: real
  quat_value :: ufbx_vec4

record ufbx_baked_node =
  baked_typed_id :: uint32
  translation_keys :: "ufbx_baked_vec3 list"
  rotation_keys :: "ufbx_baked_quat list"
  scale_keys :: "ufbx_baked_vec3 list"

record ufbx_baked_anim =
  baked_nodes :: "ufbx_baked_node list"

record ufbx_anim_stack =
  stack_typed_id :: uint32
  stack_name :: ufbx_string

definition extract_vec3_keyframe :: "ufbx_baked_vec3 \<Rightarrow> string \<Rightarrow> eterm" where
  "extract_vec3_keyframe key field_name =
     enif_make_map_put
       (enif_make_map_put enif_make_new_map (enif_make_atom ''time'')
          (enif_make_double (vec3_time key)))
       (enif_make_atom field_name) (make_vec3 (vec3_value key))"

definition extract_quat_keyframe :: "ufbx_baked_quat \<Rightarrow> eterm" where
  "extract_quat_keyframe key =
     enif_make_map_put
       (enif_make_map_put enif_make_new_map (enif_make_atom ''time'')
          (enif_make_double (quat_time key)))
       (enif_make_atom ''rotation'')
       (case quat_value key of (x, y, z, w) \<Rightarrow>
          enif_make_list_from
            [enif_make_double x, enif_make_double y, enif_make_double z, enif_make_double w])"

text \<open>The body the three channel loops of \<open>extract_animation\<close> share: a fresh map with
  \<open>node_id\<close>, into which \<open>time\<close> and the channel's field are copied from the keyframe
  when the keyframe has them.\<close>

definition copy_field :: "eterm \<Rightarrow> string \<Rightarrow> eterm \<Rightarrow> eterm" where
  "copy_field keyframe field keyframe_map =
     (case enif_get_map_value keyframe (enif_make_atom field) of
        Some v \<Rightarrow> enif_make_map_put keyframe_map (enif_make_atom field) v
      | None \<Rightarrow> keyframe_map)"

definition keyframe_map_of :: "uint32 \<Rightarrow> eterm \<Rightarrow> string \<Rightarrow> eterm" where
  "keyframe_map_of node_id keyframe field =
     copy_field keyframe field
       (copy_field keyframe ''time''
          (enif_make_map_put enif_make_new_map (enif_make_atom ''node_id'')
             (enif_make_uint node_id)))"

text \<open>A channel loop: from the last key to the first, each keyframe is put in front of
  the list built so far.\<close>

primrec prepend_keyframes :: "('k \<Rightarrow> eterm) \<Rightarrow> 'k list \<Rightarrow> eterm \<Rightarrow> eterm" where
  "prepend_keyframes f [] all_keyframes = all_keyframes"
| "prepend_keyframes f (k # ks) all_keyframes =
     enif_make_list_cell (f k) (prepend_keyframes f ks all_keyframes)"

text \<open>One baked node: its translation keys go in first, then its rotation keys in front of
  them, then its scale keys in front of those.\<close>

definition baked_node_keyframes :: "ufbx_baked_node \<Rightarrow> eterm \<Rightarrow> eterm" where
  "baked_node_keyframes baked_node all_keyframes =
     (let node_id = baked_typed_id baked_node;
          after_translation =
            prepend_keyframes
              (\<lambda>k. keyframe_map_of node_id (extract_vec3_keyframe k ''translation'')
                     ''translation'')
              (translation_keys baked_node) all_keyframes;
          after_rotation =
            prepend_keyframes
              (\<lambda>k. keyframe_map_of node_id (extract_quat_keyframe k) ''rotation'')
              (rotation_keys baked_node) after_translation
      in prepend_keyframes
           (\<lambda>k. keyframe_map_of node_id (extract_vec3_keyframe k ''scale'') ''scale'')
           (scale_keys baked_node) after_rotation)"

text \<open>The node loop also runs from the last baked node to the first.\<close>

primrec all_keyframes_of :: "ufbx_baked_node list \<Rightarrow> eterm" where
  "all_keyframes_of [] = ENil"
| "all_keyframes_of (n # ns) = baked_node_keyframes n (all_keyframes_of ns)"

definition extract_animation :: "(nat \<Rightarrow> bool) \<Rightarrow> ufbx_baked_anim \<Rightarrow> ufbx_anim_stack \<Rightarrow> eterm"
  where
  "extract_animation alloc baked anim_stack =
     build_map
       [(enif_make_atom ''id'', enif_make_uint (stack_typed_id anim_stack)),
        (enif_make_atom ''name'', make_string alloc (stack_name anim_stack)),
        (enif_make_atom ''keyframes'', all_keyframes_of (baked_nodes baked))]"

section \<open>The whole scene and the load functions\<close>

record ufbx_scene =
  scene_nodes :: "ufbx_node list"
  scene_meshes :: "ufbx_mesh list"
  scene_materials :: "ufbx_material list"
  scene_textures :: "ufbx_texture list"
  scene_anim_stacks :: "ufbx_anim_stack list"
  metadata_version :: uint32

text \<open>\<open>%u\<close> of \<open>snprintf\<close>.\<close>

fun show_nat :: "nat \<Rightarrow> string" where
  "show_nat n =
     (if n < 10 then [char_of (48 + n)]
      else show_nat (n div 10) @ [char_of (48 + n mod 10)])"

definition version_str :: "uint32 \<Rightarrow> string" where
  "version_str v =
     take 31 (''FBX '' @ show_nat (unat v div 1000) @ ''.'' @ show_nat (unat v mod 1000 div 100))"

text \<open>The baker is the parsing library's: \<open>bake scene stack rate\<close> is the baked animation
  of a stack, or \<open>None\<close> when baking fails.\<close>

primrec extract_animations :: "(nat \<Rightarrow> bool)
    \<Rightarrow> (ufbx_scene \<Rightarrow> ufbx_anim_stack \<Rightarrow> real \<Rightarrow> ufbx_baked_anim option)
    \<Rightarrow> ufbx_scene \<Rightarrow> ufbx_anim_stack list \<Rightarrow> eterm" where
  "extract_animations alloc bake scene [] = ENil"
| "extract_animations alloc bake scene (anim_stack # rest) =
     (case bake scene anim_stack 30 of
        Some baked \<Rightarrow>
          enif_make_list_cell (extract_animation alloc baked anim_stack)
            (extract_animations alloc bake scene rest)
      | None \<Rightarrow> extract_animations alloc bake scene rest)"

definition extract_scene_data :: "(nat \<Rightarrow> bool)
    \<Rightarrow> (ufbx_scene \<Rightarrow> ufbx_anim_stack \<Rightarrow> real \<Rightarrow> ufbx_baked_anim option)
    \<Rightarrow> ufbx_scene \<Rightarrow> eterm" where
  "extract_scene_data alloc bake scene =
     build_map
       [(enif_make_atom ''version'', enif_make_string (version_str (metadata_version scene))),
        (enif_make_atom ''nodes'',
           enif_make_list_from
             (map (\<lambda>node. extract_node alloc node (node_typed_id node)) (scene_nodes scene))),
        (enif_make_atom ''meshes'',
           enif_make_list_from (map (extract_mesh alloc) (scene_meshes scene))),
        (enif_make_atom ''materials'',
           enif_make_list_from (map (extract_material alloc) (scene_materials scene))),
        (enif_make_atom ''textures'',
           enif_make_list_from (map (extract_texture alloc) (scene_textures scene))),
        (enif_make_atom ''animations'',
           extract_animations alloc bake scene (scene_anim_stacks scene))]"

datatype nif_result = Badarg | Return eterm

text \<open>The parser is the library's: \<open>load\<close> gives the scene, or the description of its
  error. \<open>load_fbx_nif\<close> hands it the path as a C string, \<open>load_fbx_binary_nif\<close> the bytes.\<close>

definition load_fbx_nif :: "(nat \<Rightarrow> bool)
    \<Rightarrow> (ufbx_scene \<Rightarrow> ufbx_anim_stack \<Rightarrow> real \<Rightarrow> ufbx_baked_anim option)
    \<Rightarrow> (string \<Rightarrow> string + ufbx_scene) \<Rightarrow> eterm list \<Rightarrow> nif_result" where
  "load_fbx_nif alloc bake ufbx_load_file argv =
     (case argv of
        EBinary file_path_bin # _ \<Rightarrow>
          (case ufbx_load_file (c_str file_path_bin) of
             Inl description \<Rightarrow>
               Return (ETuple [enif_make_atom ''error'', enif_make_string (c_str description)])
           | Inr scene \<Rightarrow>
               Return (ETuple [enif_make_atom ''ok'', extract_scene_data alloc bake scene]))
      | _ \<Rightarrow> Badarg)"

definition load_fbx_binary_nif :: "(nat \<Rightarrow> bool)
    \<Rightarrow> (ufbx_scene \<Rightarrow> ufbx_anim_stack \<Rightarrow> real \<Rightarrow> ufbx_baked_anim option)
    \<Rightarrow> (string \<Rightarrow> string + ufbx_scene) \<Rightarrow> eterm list \<Rightarrow> nif_result" where
  "load_fbx_binary_nif alloc bake ufbx_load_memory argv =
     (case argv of
        EBinary data_bin # _ \<Rightarrow>
          (case ufbx_load_memory data_bin of
             Inl description \<Rightarrow>
               Return (ETuple [enif_make_atom ''error'', enif_make_string (c_str description)])
           | Inr scene \<Rightarrow>
               Return (ETuple [enif_make_atom ''ok'', extract_scene_data alloc bake scene]))
      | _ \<Rightarrow> Badarg)"

section \<open>Parsing helpers of the write side\<close>

definition parse_vec3_from_list :: "eterm \<Rightarrow> ufbx_vec3 option" where
  "parse_vec3_from_list t =
     (case list_elems t of
        Some [a, b, c] \<Rightarrow>
          (case enif_get_double a of
             None \<Rightarrow> None
           | Some x \<Rightarrow>
               (case enif_get_double b of
                  None \<Rightarrow> None
                | Some y \<Rightarrow>
                    (case enif_get_double c of None \<Rightarrow> None | Some z \<Rightarrow> Some (x, y, z))))
      | _ \<Rightarrow> None)"

definition parse_vec4_from_list :: "eterm \<Rightarrow> ufbx_vec4 option" where
  "parse_vec4_from_list t =
     (case list_elems t of
        Some [a, b, c, d] \<Rightarrow>
          (case enif_get_double a of
             None \<Rightarrow> None
           | Some x \<Rightarrow>
               (case enif_get_double b of
                  None \<Rightarrow> None
                | Some y \<Rightarrow>
                    (case enif_get_double c of
                       None \<Rightarrow> None
                     | Some z \<Rightarrow>
                         (case enif_get_double d of
                            None \<Rightarrow> None
                          | Some w \<Rightarrow> Some (x, y, z, w)))))
      | _ \<Rightarrow> None)"

text \<open>A name is a binary, or an atom (read into a buffer one byte longer than the atom, so
  the read succeeds); the length is passed on with the bytes.\<close>

definition parse_string :: "eterm \<Rightarrow> string option" where
  "parse_string t =
     (case t of
        EBinary b \<Rightarrow> Some b
      | EAtom a \<Rightarrow> map_option (take (length a)) (enif_get_atom t (length a + 1))
      | _ \<Rightarrow> None)"

definition get_map_uint :: "eterm \<Rightarrow> string \<Rightarrow> uint32 option" where
  "get_map_uint m key =
     (case enif_get_map_value m (enif_make_atom key) of
        Some v \<Rightarrow> enif_get_uint v
      | None \<Rightarrow> None)"

definition get_map_string :: "eterm \<Rightarrow> string \<Rightarrow> string option" where
  "get_map_string m key =
     (case enif_get_map_value m (enif_make_atom key) of
        Some v \<Rightarrow> parse_string v
      | None \<Rightarrow> None)"

definition get_map_vec3 :: "eterm \<Rightarrow> string \<Rightarrow> ufbx_vec3 option" where
  "get_map_vec3 m key =
     (case enif_get_map_value m (enif_make_atom key) of
        Some v \<Rightarrow> parse_vec3_from_list v
      | None \<Rightarrow> None)"

definition get_map_vec4 :: "eterm \<Rightarrow> string \<Rightarrow> ufbx_vec4 option" where
  "get_map_vec4 m key =
     (case enif_get_map_value m (enif_make_atom key) of
        Some v \<Rightarrow> parse_vec4_from_list v
      | None \<Rightarrow> None)"

text \<open>\<open>get_map_list\<close> only looks the key up: the value may be any term.\<close>

definition get_map_list :: "eterm \<Rightarrow> string \<Rightarrow> eterm option" where
  "get_map_list m key = enif_get_map_value m (enif_make_atom key)"

section \<open>The scene under construction (write side)\<close>

text \<open>
  The writer library is used through its setters only. The model keeps, for every element
  the builder creates, the argument of each setter called on it, and \<open>None\<close> for a setter
  that was never called. A node or mesh handle is the element's position in creation order.
\<close>

record ufbxw_node_data =
  wn_name :: "string option"
  wn_translation :: "ufbx_vec3 option"
  wn_rotation_quat :: "ufbx_vec4 option"
  wn_scaling :: "ufbx_vec3 option"
  wn_parent :: "nat option"
  wn_attribute :: "nat option"

record ufbxw_mesh_data =
  wm_name :: "string option"
  wm_vertices :: "ufbx_vec3 list option"
  wm_triangles :: "uint32 list option"
  wm_normals :: "ufbx_vec3 list option"
  wm_uvs :: "ufbx_vec2 list option"

record ufbxw_material_data =
  wmat_name :: "string option"
  wmat_diffuse_color :: "ufbx_vec3 option"

record ufbxw_scene =
  w_nodes :: "ufbxw_node_data list"
  w_meshes :: "ufbxw_mesh_data list"
  w_materials :: "ufbxw_material_data list"

text \<open>
  The id arrays and the index buffers come from \<open>enif_alloc\<close> and are written only where
  the entry yields an unsigned integer; elsewhere a slot keeps what the allocation held.
  That content is an input of the model.
\<close>

record uninit_memory =
  junk_node_ids :: "nat \<Rightarrow> uint32"
  junk_mesh_ids :: "nat \<Rightarrow> uint32"
  junk_indices :: "nat \<Rightarrow> nat \<Rightarrow> uint32"

primrec fill_ids :: "(nat \<Rightarrow> uint32) \<Rightarrow> nat \<Rightarrow> eterm list \<Rightarrow> uint32 list" where
  "fill_ids junk i [] = []"
| "fill_ids junk i (head # rest) =
     (case get_map_uint head ''id'' of Some v \<Rightarrow> v | None \<Rightarrow> junk i)
     # fill_ids junk (Suc i) rest"

text \<open>\<open>enif_get_double(env, t, &x)\<close> with its result ignored: \<open>x\<close> keeps its initial value
  unless the term is a float. One \<open>if (enif_get_list_cell(...)) enif_get_double(...)\<close> step
  reads a component that way when the cell exists, and then the tail moves on.\<close>

definition get_double_into :: "real \<Rightarrow> eterm \<Rightarrow> real" where
  "get_double_into initial t = (case enif_get_double t of Some d \<Rightarrow> d | None \<Rightarrow> initial)"

definition read_component :: "real \<Rightarrow> eterm \<Rightarrow> real \<times> eterm" where
  "read_component initial tail =
     (case enif_get_list_cell tail of
        Some (head, tail') \<Rightarrow> (get_double_into initial head, tail')
      | None \<Rightarrow> (initial, tail))"

fun decode_vec3s :: "ufbx_vec3 \<Rightarrow> nat \<Rightarrow> eterm \<Rightarrow> ufbx_vec3 list" where
  "decode_vec3s initial 0 tail = []"
| "decode_vec3s initial (Suc n) tail =
     (let (x, tail1) = read_component (fst initial) tail;
          (y, tail2) = read_component (fst (snd initial)) tail1;
          (z, tail3) = read_component (snd (snd initial)) tail2
      in (x, y, z) # decode_vec3s initial n tail3)"

fun decode_vec2s :: "nat \<Rightarrow> eterm \<Rightarrow> ufbx_vec2 list" where
  "decode_vec2s 0 tail = []"
| "decode_vec2s (Suc n) tail =
     (let (u_val, tail1) = read_component 0 tail;
          (v_val, tail2) = read_component 0 tail1
      in (u_val, v_val) # decode_vec2s n tail2)"

text \<open>A flat list of three-component vectors under \<open>key\<close>: set when the value is a proper
  list of a positive multiple of three elements.\<close>

definition mesh_vec3_attribute :: "ufbx_vec3 \<Rightarrow> string \<Rightarrow> eterm \<Rightarrow> ufbx_vec3 list option"
  where
  "mesh_vec3_attribute initial key head =
     (case get_map_list head key of
        None \<Rightarrow> None
      | Some values_list \<Rightarrow>
          (case enif_get_list_length values_list of
             None \<Rightarrow> None
           | Some len \<Rightarrow>
               (let vertex_count = len div 3
                in if vertex_count > 0 \<and> len mod 3 = 0
                   then Some (decode_vec3s initial vertex_count values_list)
                   else None)))"

definition mesh_uvs :: "eterm \<Rightarrow> ufbx_vec2 list option" where
  "mesh_uvs head =
     (case get_map_list head ''texcoords'' of
        None \<Rightarrow> None
      | Some texcoords_list \<Rightarrow>
          (case enif_get_list_length texcoords_list of
             None \<Rightarrow> None
           | Some texcoords_len \<Rightarrow>
               (let uv_count = texcoords_len div 2
                in if uv_count > 0 \<and> texcoords_len mod 2 = 0
                   then Some (decode_vec2s uv_count texcoords_list)
                   else None)))"

primrec decode_indices :: "(nat \<Rightarrow> uint32) \<Rightarrow> nat \<Rightarrow> eterm list \<Rightarrow> uint32 list" where
  "decode_indices junk j [] = []"
| "decode_indices junk j (idx_head # rest) =
     (case enif_get_uint idx_head of Some idx_val \<Rightarrow> idx_val | None \<Rightarrow> junk j)
     # decode_indices junk (Suc j) rest"

definition mesh_triangles :: "(nat \<Rightarrow> uint32) \<Rightarrow> eterm \<Rightarrow> uint32 list option" where
  "mesh_triangles junk head =
     (case get_map_list head ''indices'' of
        None \<Rightarrow> None
      | Some indices_list \<Rightarrow>
          (case list_elems indices_list of
             None \<Rightarrow> None
           | Some elems \<Rightarrow> Some (decode_indices junk 0 elems)))"

text \<open>The mesh loop inside the \<open>nodes\<close> branch.\<close>

definition build_mesh :: "(nat \<Rightarrow> uint32) \<Rightarrow> eterm \<Rightarrow> ufbxw_mesh_data" where
  "build_mesh junk head =
     \<lparr>wm_name = get_map_string head ''name'',
      wm_vertices = mesh_vec3_attribute (0, 0, 0) ''positions'' head,
      wm_triangles = mesh_triangles junk head,
      wm_normals = mesh_vec3_attribute (0, 0, 1) ''normals'' head,
      wm_uvs = mesh_uvs head\<rparr>"

text \<open>The mesh loop of the branch taken when the scene has no \<open>nodes\<close> key.\<close>

definition build_mesh_no_nodes :: "(nat \<Rightarrow> uint32) \<Rightarrow> eterm \<Rightarrow> ufbxw_mesh_data" where
  "build_mesh_no_nodes junk head =
     \<lparr>wm_name = get_map_string head ''name'',
      wm_vertices = mesh_vec3_attribute (0, 0, 0) ''positions'' head,
      wm_triangles = mesh_triangles junk head,
      wm_normals = None,
      wm_uvs = None\<rparr>"

primrec build_meshes :: "((nat \<Rightarrow> uint32) \<Rightarrow> eterm \<Rightarrow> ufbxw_mesh_data)
    \<Rightarrow> (nat \<Rightarrow> nat \<Rightarrow> uint32) \<Rightarrow> nat \<Rightarrow> eterm list \<Rightarrow> ufbxw_mesh_data list" where
  "build_meshes body junk i [] = []"
| "build_meshes body junk i (head # rest) =
     body (junk i) head # build_meshes body junk (Suc i) rest"

definition create_node :: "eterm \<Rightarrow> ufbxw_node_data" where
  "create_node head =
     \<lparr>wn_name = get_map_string head ''name'',
      wn_translation = get_map_vec3 head ''translation'',
      wn_rotation_quat = get_map_vec4 head ''rotation'',
      wn_scaling = get_map_vec3 head ''scale'',
      wn_parent = None,
      wn_attribute = None\<rparr>"

text \<open>The search loops: the first slot of the id array that holds the wanted id.\<close>

primrec find_id :: "uint32 list \<Rightarrow> uint32 \<Rightarrow> nat \<Rightarrow> nat option" where
  "find_id [] wanted j = None"
| "find_id (slot # slots) wanted j =
     (if slot = wanted then Some j else find_id slots wanted (Suc j))"

definition set_parent :: "uint32 list \<Rightarrow> eterm \<Rightarrow> ufbxw_node_data \<Rightarrow> ufbxw_node_data" where
  "set_parent node_ids head node =
     (case get_map_uint head ''parent_id'' of
        None \<Rightarrow> node
      | Some parent_id \<Rightarrow>
          (case find_id node_ids parent_id 0 of
             None \<Rightarrow> node
           | Some j \<Rightarrow> node\<lparr>wn_parent := Some j\<rparr>))"

definition node_mesh_id :: "eterm \<Rightarrow> uint32" where
  "node_mesh_id head = (case get_map_uint head ''mesh_id'' of Some mesh_id \<Rightarrow> mesh_id | None \<Rightarrow> 0)"

definition connect_mesh :: "uint32 list \<Rightarrow> uint32 \<Rightarrow> ufbxw_node_data \<Rightarrow> ufbxw_node_data" where
  "connect_mesh mesh_ids wanted node =
     (if wanted \<noteq> 0
      then (case find_id mesh_ids wanted 0 of
              None \<Rightarrow> node
            | Some j \<Rightarrow> node\<lparr>wn_attribute := Some j\<rparr>)
      else node)"

definition build_material :: "eterm \<Rightarrow> ufbxw_material_data" where
  "build_material head =
     \<lparr>wmat_name = get_map_string head ''name'',
      wmat_diffuse_color = get_map_vec3 head ''diffuse_color''\<rparr>"

definition build_materials :: "eterm \<Rightarrow> ufbxw_material_data list" where
  "build_materials scene_data_map =
     (case get_map_list scene_data_map ''materials'' of
        None \<Rightarrow> []
      | Some materials_list \<Rightarrow>
          (case list_elems materials_list of
             None \<Rightarrow> []
           | Some elems \<Rightarrow> map build_material elems))"

text \<open>The mesh entries the builder can walk: the elements of the value under \<open>meshes\<close> when
  it is a proper list.\<close>

definition mesh_entries :: "eterm \<Rightarrow> eterm list option" where
  "mesh_entries scene_data_map =
     (case get_map_list scene_data_map ''meshes'' of
        None \<Rightarrow> None
      | Some meshes_list \<Rightarrow> list_elems meshes_list)"

text \<open>The \<open>nodes\<close> branch for a proper node list: create the nodes, wire parents, build the
  meshes, then connect meshes to nodes when there is a mesh array.\<close>

definition build_with_nodes :: "uninit_memory \<Rightarrow> eterm \<Rightarrow> eterm list
    \<Rightarrow> ufbxw_node_data list \<times> ufbxw_mesh_data list" where
  "build_with_nodes mem scene_data_map node_entries =
     (let node_ids = fill_ids (junk_node_ids mem) 0 node_entries;
          created = map create_node node_entries;
          node_mesh_ids = map node_mesh_id node_entries;
          parented = map2 (set_parent node_ids) node_entries created
      in case mesh_entries scene_data_map of
           None \<Rightarrow> (parented, [])
         | Some entries \<Rightarrow>
             (let mesh_ids = fill_ids (junk_mesh_ids mem) 0 entries;
                  meshes = build_meshes build_mesh (junk_indices mem) 0 entries
              in (map2 (connect_mesh mesh_ids) node_mesh_ids parented, meshes)))"

text \<open>\<open>scene_created\<close> says whether \<open>ufbxw_create_scene\<close> returned a scene.\<close>

definition build_ufbxw_scene_from_map :: "bool \<Rightarrow> uninit_memory \<Rightarrow> eterm \<Rightarrow> ufbxw_scene option"
  where
  "build_ufbxw_scene_from_map scene_created mem scene_data_map =
     (if \<not> scene_created then None
      else
        (let (nodes, meshes) =
               (case get_map_list scene_data_map ''nodes'' of
                  Some nodes_list \<Rightarrow>
                    (case list_elems nodes_list of
                       Some node_entries \<Rightarrow> build_with_nodes mem scene_data_map node_entries
                     | None \<Rightarrow> ([], []))
                | None \<Rightarrow>
                    (case mesh_entries scene_data_map of
                       Some entries \<Rightarrow>
                         ([], build_meshes build_mesh_no_nodes (junk_indices mem) 0 entries)
                     | None \<Rightarrow> ([], [])))
         in Some \<lparr>w_nodes = nodes, w_meshes = meshes,
                  w_materials = build_materials scene_data_map\<rparr>))"

section \<open>Writing\<close>

datatype ufbxw_save_format = UFBXW_SAVE_FORMAT_BINARY | UFBXW_SAVE_FORMAT_ASCII

record ufbxw_save_opts =
  opts_format :: ufbxw_save_format
  opts_version :: nat

definition save_format_of :: "eterm \<Rightarrow> ufbxw_save_format" where
  "save_format_of format_atom =
     (case enif_get_atom format_atom 256 of
        Some atom_buf \<Rightarrow>
          if strcmp_eq atom_buf ''ascii'' then UFBXW_SAVE_FORMAT_ASCII
          else UFBXW_SAVE_FORMAT_BINARY
      | None \<Rightarrow> UFBXW_SAVE_FORMAT_BINARY)"

definition enif_is_map :: "eterm \<Rightarrow> bool" where
  "enif_is_map t = (case t of EMap _ \<Rightarrow> True | _ \<Rightarrow> False)"

text \<open>The writer is the library's: \<open>ufbxw_save_file scene path opts\<close> is \<open>None\<close> on success
  and the error's description on failure. The message buffer holds 256 bytes.\<close>

definition write_fbx_nif :: "bool \<Rightarrow> uninit_memory
    \<Rightarrow> (ufbxw_scene \<Rightarrow> string \<Rightarrow> ufbxw_save_opts \<Rightarrow> string option)
    \<Rightarrow> eterm list \<Rightarrow> nif_result" where
  "write_fbx_nif scene_created mem ufbxw_save_file argv =
     (case argv of
        [path_term, scene_data_map, format_atom] \<Rightarrow>
          (case path_term of
             EBinary file_path_bin \<Rightarrow>
               if \<not> enif_is_map scene_data_map then Badarg
               else
                 (let file_path = c_str file_path_bin in
                  case build_ufbxw_scene_from_map scene_created mem scene_data_map of
                    None \<Rightarrow>
                      Return (ETuple [enif_make_atom ''error'',
                                      enif_make_string ''Failed to create ufbxw_scene''])
                  | Some scene \<Rightarrow>
                      (case ufbxw_save_file scene file_path
                              \<lparr>opts_format = save_format_of format_atom, opts_version = 7400\<rparr>
                       of
                         Some description \<Rightarrow>
                           Return (ETuple [enif_make_atom ''error'',
                             enif_make_string
                               (take 255 (''Failed to save FBX: '' @ c_str description))])
                       | None \<Rightarrow>
                           Return (ETuple [enif_make_atom ''ok'', enif_make_string file_path])))
           | _ \<Rightarrow> Badarg)
      | _ \<Rightarrow> Badarg)"

section \<open>Reading an extracted animation\<close>

text \<open>The elements of the \<open>keyframes\<close> list of an animation term.\<close>

definition keyframes_of :: "eterm \<Rightarrow> eterm list" where
  "keyframes_of animation =
     (case enif_get_map_value animation (EAtom ''keyframes'') of
        None \<Rightarrow> []
      | Some l \<Rightarrow> (case list_elems l of None \<Rightarrow> [] | Some elems \<Rightarrow> elems))"

text \<open>The keyframes of one node and one channel: those whose \<open>node_id\<close> is the node's and
  which carry the channel's field, in the order of the list.\<close>

definition channel_keyframes :: "uint32 \<Rightarrow> string \<Rightarrow> eterm list \<Rightarrow> eterm list" where
  "channel_keyframes node_id field keyframes =
     filter
       (\<lambda>k. enif_get_map_value k (EAtom ''node_id'') = Some (enif_make_uint node_id)
            \<and> enif_get_map_value k (EAtom field) \<noteq> None)
       keyframes"

definition keyframe_time :: "eterm \<Rightarrow> real option" where
  "keyframe_time k =
     (case enif_get_map_value k (EAtom ''time'') of
        Some t \<Rightarrow> enif_get_double t
      | None \<Rightarrow> None)"

text \<open>The time of a keyframe of the list; a keyframe without a float \<open>time\<close> has none.\<close>

definition keyframe_times :: "eterm list \<Rightarrow> real list" where
  "keyframe_times keyframes = List.map_filter keyframe_time keyframes"

text \<open>The keyframes one baked node contributes, in the order they stand in the list: its
  scale keys, then its rotation keys, then its translation keys.\<close>

definition node_keyframe_list :: "ufbx_baked_node \<Rightarrow> eterm list" where
  "node_keyframe_list n =
     map (\<lambda>k. keyframe_map_of (baked_typed_id n) (extract_vec3_keyframe k ''scale'') ''scale'')
       (scale_keys n)
     @ map (\<lambda>k. keyframe_map_of (baked_typed_id n) (extract_quat_keyframe k) ''rotation'')
         (rotation_keys n)
     @ map (\<lambda>k. keyframe_map_of (baked_typed_id n) (extract_vec3_keyframe k ''translation'')
                 ''translation'')
         (translation_keys n)"

section \<open>Sample inputs\<close>

definition one_vertex_mesh :: ufbx_mesh where
  "one_vertex_mesh =
     \<lparr>mesh_typed_id = 0, mesh_name = ''Cube'',
      vertex_position =
        \<lparr>attrib_exists = True, attrib_values = [(1, 2, 3)], attrib_indices = [0]\<rparr>,
      vertex_normal =
        \<lparr>attrib_exists = True, attrib_values = [(0, 0, 1)], attrib_indices = []\<rparr>,
      vertex_uv = \<lparr>attrib_exists = True, attrib_values = [(0, 1)], attrib_indices = []\<rparr>,
      mesh_materials = []\<rparr>"

definition sample_material :: ufbx_material where
  "sample_material =
     \<lparr>material_typed_id = 0, material_name = ''Steel'',
      pbr_base_color = \<lparr>has_value = True, value_components = 3, value_vec3 = (1, 0, 0)\<rparr>,
      pbr_specular_color = \<lparr>has_value = True, value_components = 1, value_vec3 = (1, 1, 1)\<rparr>,
      pbr_emission_color = \<lparr>has_value = True, value_components = 2, value_vec3 = (1, 1, 0)\<rparr>,
      fbx_diffuse_color = \<lparr>has_value = True, value_components = 3, value_vec3 = (0, 1, 0)\<rparr>,
      fbx_specular_color = \<lparr>has_value = True, value_components = 4, value_vec3 = (0, 0, 1)\<rparr>,
      fbx_emission_color = \<lparr>has_value = False, value_components = 0, value_vec3 = (0, 0, 0)\<rparr>\<rparr>"

definition sample_baked_anim :: ufbx_baked_anim where
  "sample_baked_anim =
     \<lparr>baked_nodes =
        [\<lparr>baked_typed_id = 0,
          translation_keys =
            [\<lparr>vec3_time = 0, vec3_value = (0, 0, 0)\<rparr>, \<lparr>vec3_time = 1, vec3_value = (5, 0, 0)\<rparr>],
          rotation_keys = [\<lparr>quat_time = 0, quat_value = (0, 0, 0, 1)\<rparr>],
          scale_keys = [\<lparr>vec3_time = 2, vec3_value = (1, 1, 1)\<rparr>]\<rparr>,
         \<lparr>baked_typed_id = 1,
          translation_keys = [\<lparr>vec3_time = 0, vec3_value = (7, 7, 7)\<rparr>],
          rotation_keys = [],
          scale_keys = []\<rparr>]\<rparr>"

text \<open>A scene term with one node and one mesh, the node's \<open>mesh_id\<close> being the mesh's
  \<open>id\<close>.\<close>

definition node_with_mesh_scene :: "int \<Rightarrow> eterm" where
  "node_with_mesh_scene k =
     EMap [(EAtom ''nodes'',
              enif_make_list_from [EMap [(EAtom ''id'', EInt 0), (EAtom ''mesh_id'', EInt k)]]),
           (EAtom ''meshes'', enif_make_list_from [EMap [(EAtom ''id'', EInt k)]])]"

text \<open>A mesh entry with one vertex, one normal and one texture coordinate, all floats.\<close>

definition full_mesh_entry :: eterm where
  "full_mesh_entry =
     EMap [(EAtom ''id'', EInt 0),
           (EAtom ''positions'', enif_make_list_from [EDouble 1, EDouble 2, EDouble 3]),
           (EAtom ''normals'', enif_make_list_from [EDouble 0, EDouble 0, EDouble 1]),
           (EAtom ''texcoords'', enif_make_list_from [EDouble 0, EDouble 1])]"

definition meshes_only_scene :: eterm where
  "meshes_only_scene = EMap [(EAtom ''meshes'', enif_make_list_from [full_mesh_entry])]"

definition meshes_and_no_node_scene :: eterm where
  "meshes_and_no_node_scene =
     EMap [(EAtom ''nodes'', ENil), (EAtom ''meshes'', enif_make_list_from [full_mesh_entry])]"

text \<open>A mesh entry whose lists pass the arity checks and hold terms that are not floats.\<close>

definition mixed_mesh_entry :: eterm where
  "mixed_mesh_entry =
     EMap [(EAtom ''positions'', enif_make_list_from [EInt 1, EDouble 2, EAtom ''x'']),
           (EAtom ''normals'', enif_make_list_from [EInt 0, EInt 0, EInt 5]),
           (EAtom ''texcoords'', enif_make_list_from [EDouble 1, EInt 2])]"

text \<open>A mesh entry with four positions, and a scene holding it.\<close>

definition short_positions_scene :: eterm where
  "short_positions_scene =
     EMap [(EAtom ''meshes'',
              enif_make_list_from
                [EMap [(EAtom ''id'', EInt 0),
                       (EAtom ''positions'',
                          enif_make_list_from [EDouble 0, EDouble 0, EDouble 0, EDouble 1])]])]"

text \<open>Two nodes, the second naming a parent that no node declares.\<close>

definition orphan_scene :: eterm where
  "orphan_scene =
     EMap [(EAtom ''nodes'',
              enif_make_list_from
                [EMap [(EAtom ''id'', EInt 0)],
                 EMap [(EAtom ''id'', EInt 1), (EAtom ''parent_id'', EInt 7)]])]"

definition no_junk :: uninit_memory where
  "no_junk = \<lparr>junk_node_ids = (\<lambda>i. 0), junk_mesh_ids = (\<lambda>i. 0), junk_indices = (\<lambda>i j. 0)\<rparr>"

definition writer_ok :: "ufbxw_scene \<Rightarrow> string \<Rightarrow> ufbxw_save_opts \<Rightarrow> string option" where
  "writer_ok scene path opts = None"

definition mixed_scene :: eterm where
  "mixed_scene =
     EMap [(EAtom ''nodes'', ENil), (EAtom ''meshes'', enif_make_list_from [mixed_mesh_entry])]"

text \<open>A parsed node that carries the first mesh of its scene (typed ids count from 0).\<close>

definition root_node :: ufbx_node where
  "root_node =
     \<lparr>node_name = ''Root'', node_typed_id = 0, node_parent = None, node_children = [],
      node_local_transform =
        \<lparr>translation = (0, 0, 0), rotation = (0, 0, 0, 1), scale = (1, 1, 1)\<rparr>,
      node_mesh = Some 0\<rparr>"

text \<open>Two nodes, the first without an \<open>id\<close>, the second naming parent 0, which no node
  declares.\<close>

definition missing_id_scene :: eterm where
  "missing_id_scene =
     EMap [(EAtom ''nodes'',
              enif_make_list_from
                [EMap [(EAtom ''name'', EBinary ''noid'')],
                 EMap [(EAtom ''id'', EInt 1), (EAtom ''parent_id'', EInt 0)]])]"

text \<open>The scene of \<open>mixed_scene\<close> without its \<open>nodes\<close> key.\<close>

definition mixed_no_nodes_scene :: eterm where
  "mixed_no_nodes_scene = EMap [(EAtom ''meshes'', enif_make_list_from [mixed_mesh_entry])]"


section \<open>Reading a built map\<close>

lemma build_map_aux:
  "foldl (\<lambda>m kv. enif_make_map_put m (fst kv) (snd kv)) (EMap acc) kvs
     = EMap (foldl (\<lambda>al kv. AList.update (fst kv) (snd kv) al) acc kvs)"
  by (induction kvs arbitrary: acc) (simp_all add: enif_make_map_put_def)

lemma map_of_foldl_update:
  "map_of (foldl (\<lambda>al kv. AList.update (fst kv) (snd kv) al) acc kvs) k
     = (case map_of (rev kvs) k of Some v \<Rightarrow> Some v | None \<Rightarrow> map_of acc k)"
  by (induction kvs arbitrary: acc) (auto simp: update_conv' split: option.splits)

lemma get_build_map:
  "enif_get_map_value (build_map kvs) k = map_of (rev kvs) k"
  by (simp add: build_map_def enif_make_new_map_def build_map_aux enif_get_map_value_def
      map_of_foldl_update split: option.splits)

lemma get_name_node:
  "enif_get_map_value (extract_node alloc node node_id) (EAtom ''name'')
     = Some (make_string alloc (node_name node))"
  by (simp add: get_build_map extract_node_def enif_make_atom_def split: option.splits)

lemma get_name_mesh:
  "enif_get_map_value (extract_mesh alloc mesh) (EAtom ''name'')
     = Some (make_string alloc (mesh_name mesh))"
  by (simp add: get_build_map extract_mesh_def enif_make_atom_def)

lemma get_name_material:
  "enif_get_map_value (extract_material alloc m) (EAtom ''name'')
     = Some (make_string alloc (material_name m))"
  by (simp add: get_build_map extract_material_def enif_make_atom_def color_entry_def)

lemma get_name_texture:
  "enif_get_map_value (extract_texture alloc tx) (EAtom ''name'')
     = Some (make_string alloc (texture_name tx))"
  by (simp add: get_build_map extract_texture_def enif_make_atom_def)

lemma get_name_animation:
  "enif_get_map_value (extract_animation alloc baked st) (EAtom ''name'')
     = Some (make_string alloc (stack_name st))"
  by (simp add: get_build_map extract_animation_def enif_make_atom_def)

lemma get_color:
  "enif_get_map_value (extract_material alloc m) (EAtom ''diffuse_color'')
     = map_of (color_entry ''diffuse_color'' (pbr_base_color m) (fbx_diffuse_color m))
         (EAtom ''diffuse_color'')"
  "enif_get_map_value (extract_material alloc m) (EAtom ''specular_color'')
     = map_of (color_entry ''specular_color'' (pbr_specular_color m) (fbx_specular_color m))
         (EAtom ''specular_color'')"
  "enif_get_map_value (extract_material alloc m) (EAtom ''emissive_color'')
     = map_of (color_entry ''emissive_color'' (pbr_emission_color m) (fbx_emission_color m))
         (EAtom ''emissive_color'')"
  by (simp_all add: get_build_map extract_material_def enif_make_atom_def color_entry_def)

section \<open>Shape of the extracted mesh attributes\<close>

text \<open>
  C1. The claim: the \<open>positions\<close>, \<open>normals\<close> and \<open>texcoords\<close> of an extracted mesh are
  each one flat sequence of doubles. The extractor does not do that. On a mesh with the
  single vertex \<open>(1, 2, 3)\<close>, normal \<open>(0, 0, 1)\<close> and texture coordinate \<open>(0, 1)\<close> each
  emitted value is a list of one element, that element is itself a list (of three, three
  and two floats), and it is not a float. So the emitted length is the vertex count, not
  three (or two) times it. The write side reads \<open>positions\<close> as a flat list: given the
  extracted mesh as a mesh entry it finds a list of length 1 and sets no vertices.
\<close>

theorem extract_mesh_attributes_nested:
  "enif_get_map_value (extract_mesh (\<lambda>n. True) one_vertex_mesh) (EAtom ''positions'')
     = Some (ECons (ECons (EDouble 1) (ECons (EDouble 2) (ECons (EDouble 3) ENil))) ENil)
   \<and> enif_get_map_value (extract_mesh (\<lambda>n. True) one_vertex_mesh) (EAtom ''normals'')
     = Some (ECons (ECons (EDouble 0) (ECons (EDouble 0) (ECons (EDouble 1) ENil))) ENil)
   \<and> enif_get_map_value (extract_mesh (\<lambda>n. True) one_vertex_mesh) (EAtom ''texcoords'')
     = Some (ECons (ECons (EDouble 0) (ECons (EDouble 1) ENil)) ENil)
   \<and> enif_get_list_length
       (ECons (ECons (EDouble 1) (ECons (EDouble 2) (ECons (EDouble 3) ENil))) ENil) = Some 1
   \<and> enif_get_double (ECons (EDouble 1) (ECons (EDouble 2) (ECons (EDouble 3) ENil))) = None
   \<and> mesh_vec3_attribute (0, 0, 0) ''positions'' (extract_mesh (\<lambda>n. True) one_vertex_mesh)
     = None"
  by (simp add: get_build_map extract_mesh_def one_vertex_mesh_def enif_make_atom_def
      enif_make_list_cell_def make_vec3_def enif_make_double_def enif_get_list_length_def
      enif_get_double_def mesh_vec3_attribute_def get_map_list_def)

section \<open>Colour precedence of extracted materials\<close>

text \<open>
  C5. For each of \<open>diffuse_color\<close>, \<open>specular_color\<close> and \<open>emissive_color\<close>: a source
  counts when it has a value of at least three components. When the physically-based source
  counts (so in particular when both count) its value is emitted; when it does not and the
  legacy source counts, the legacy value is emitted; when neither counts the field is
  absent. An emitted value is the list of the three components of the source's vector, as
  floats.
\<close>

theorem material_color_precedence:
  "(has_vec3 (pbr_base_color m) \<and> has_vec3 (fbx_diffuse_color m)
      \<longrightarrow> enif_get_map_value (extract_material alloc m) (EAtom ''diffuse_color'')
            = Some (ECons (EDouble (fst (value_vec3 (pbr_base_color m))))
               (ECons (EDouble (fst (snd (value_vec3 (pbr_base_color m)))))
                 (ECons (EDouble (snd (snd (value_vec3 (pbr_base_color m))))) ENil))))
   \<and> (has_vec3 (pbr_base_color m) \<and> \<not> has_vec3 (fbx_diffuse_color m)
      \<longrightarrow> enif_get_map_value (extract_material alloc m) (EAtom ''diffuse_color'')
            = Some (ECons (EDouble (fst (value_vec3 (pbr_base_color m))))
               (ECons (EDouble (fst (snd (value_vec3 (pbr_base_color m)))))
                 (ECons (EDouble (snd (snd (value_vec3 (pbr_base_color m))))) ENil))))
   \<and> (\<not> has_vec3 (pbr_base_color m) \<and> has_vec3 (fbx_diffuse_color m)
      \<longrightarrow> enif_get_map_value (extract_material alloc m) (EAtom ''diffuse_color'')
            = Some (ECons (EDouble (fst (value_vec3 (fbx_diffuse_color m))))
               (ECons (EDouble (fst (snd (value_vec3 (fbx_diffuse_color m)))))
                 (ECons (EDouble (snd (snd (value_vec3 (fbx_diffuse_color m))))) ENil))))
   \<and> (\<not> has_vec3 (pbr_base_color m) \<and> \<not> has_vec3 (fbx_diffuse_color m)
      \<longrightarrow> enif_get_map_value (extract_material alloc m) (EAtom ''diffuse_color'') = None)
   \<and> (has_vec3 (pbr_specular_color m) \<and> has_vec3 (fbx_specular_color m)
      \<longrightarrow> enif_get_map_value (extract_material alloc m) (EAtom ''specular_color'')
            = Some (ECons (EDouble (fst (value_vec3 (pbr_specular_color m))))
               (ECons (EDouble (fst (snd (value_vec3 (pbr_specular_color m)))))
                 (ECons (EDouble (snd (snd (value_vec3 (pbr_specular_color m))))) ENil))))
   \<and> (has_vec3 (pbr_specular_color m) \<and> \<not> has_vec3 (fbx_specular_color m)
      \<longrightarrow> enif_get_map_value (extract_material alloc m) (EAtom ''specular_color'')
            = Some (ECons (EDouble (fst (value_vec3 (pbr_specular_color m))))
               (ECons (EDouble (fst (snd (value_vec3 (pbr_specular_color m)))))
                 (ECons (EDouble (snd (snd (value_vec3 (pbr_specular_color m))))) ENil))))
   \<and> (\<not> has_vec3 (pbr_specular_color m) \<and> has_vec3 (fbx_specular_color m)
      \<longrightarrow> enif_get_map_value (extract_material alloc m) (EAtom ''specular_color'')
            = Some (ECons (EDouble (fst (value_vec3 (fbx_specular_color m))))
               (ECons (EDouble (fst (snd (value_vec3 (fbx_specular_color m)))))
                 (ECons (EDouble (snd (snd (value_vec3 (fbx_specular_color m))))) ENil))))
   \<and> (\<not> has_vec3 (pbr_specular_color m) \<and> \<not> has_vec3 (fbx_specular_color m)
      \<longrightarrow> enif_get_map_value (extract_material alloc m) (EAtom ''specular_color'') = None)
   \<and> (has_vec3 (pbr_emission_color m) \<and> has_vec3 (fbx_emission_color m)
      \<longrightarrow> enif_get_map_value (extract_material alloc m) (EAtom ''emissive_color'')
            = Some (ECons (EDouble (fst (value_vec3 (pbr_emission_color m))))
               (ECons (EDouble (fst (snd (value_vec3 (pbr_emission_color m)))))
                 (ECons (EDouble (snd (snd (value_vec3 (pbr_emission_color m))))) ENil))))
   \<and> (has_vec3 (pbr_emission_color m) \<and> \<not> has_vec3 (fbx_emission_color m)
      \<longrightarrow> enif_get_map_value (extract_material alloc m) (EAtom ''emissive_color'')
            = Some (ECons (EDouble (fst (value_vec3 (pbr_emission_color m))))
               (ECons (EDouble (fst (snd (value_vec3 (pbr_emission_color m)))))
                 (ECons (EDouble (snd (snd (value_vec3 (pbr_emission_color m))))) ENil))))
   \<and> (\<not> has_vec3 (pbr_emission_color m) \<and> has_vec3 (fbx_emission_color m)
      \<longrightarrow> enif_get_map_value (extract_material alloc m) (EAtom ''emissive_color'')
            = Some (ECons (EDouble (fst (value_vec3 (fbx_emission_color m))))
               (ECons (EDouble (fst (snd (value_vec3 (fbx_emission_color m)))))
                 (ECons (EDouble (snd (snd (value_vec3 (fbx_emission_color m))))) ENil))))
   \<and> (\<not> has_vec3 (pbr_emission_color m) \<and> \<not> has_vec3 (fbx_emission_color m)
      \<longrightarrow> enif_get_map_value (extract_material alloc m) (EAtom ''emissive_color'') = None)"
  by (simp add: get_color color_entry_def enif_make_atom_def make_vec3_def
      enif_make_list_cell_def enif_make_double_def case_prod_beta)

text \<open>On \<open>sample_material\<close> both diffuse sources pass the test, only the legacy specular
  source does, and no emission source does.\<close>

theorem material_color_precedence_witness:
  "has_vec3 (pbr_base_color sample_material) \<and> has_vec3 (fbx_diffuse_color sample_material)
   \<and> enif_get_map_value (extract_material (\<lambda>n. True) sample_material) (EAtom ''diffuse_color'')
       = Some (ECons (EDouble 1) (ECons (EDouble 0) (ECons (EDouble 0) ENil)))
   \<and> \<not> has_vec3 (pbr_specular_color sample_material)
   \<and> has_vec3 (fbx_specular_color sample_material)
   \<and> enif_get_map_value (extract_material (\<lambda>n. True) sample_material) (EAtom ''specular_color'')
       = Some (ECons (EDouble 0) (ECons (EDouble 0) (ECons (EDouble 1) ENil)))
   \<and> \<not> has_vec3 (pbr_emission_color sample_material)
   \<and> \<not> has_vec3 (fbx_emission_color sample_material)
   \<and> enif_get_map_value (extract_material (\<lambda>n. True) sample_material) (EAtom ''emissive_color'')
       = None"
  using material_color_precedence [of sample_material "\<lambda>n. True"]
  by (simp add: sample_material_def has_vec3_def)

section \<open>The name field\<close>

text \<open>
  C10. Every extractor (node, mesh, material, texture, animation) puts a \<open>name\<close> entry in
  its map, whatever the source name is. The value is the empty character list (the term
  \<open>[]\<close>, which is not a binary) when the source name is empty, and the binary holding the
  name's bytes when it is not empty and the binary could be allocated.
\<close>

theorem name_always_emitted:
  "enif_get_map_value (extract_node alloc node node_id) (EAtom ''name'')
     = Some (make_string alloc (node_name node))
   \<and> enif_get_map_value (extract_mesh alloc mesh) (EAtom ''name'')
     = Some (make_string alloc (mesh_name mesh))
   \<and> enif_get_map_value (extract_material alloc material) (EAtom ''name'')
     = Some (make_string alloc (material_name material))
   \<and> enif_get_map_value (extract_texture alloc texture) (EAtom ''name'')
     = Some (make_string alloc (texture_name texture))
   \<and> enif_get_map_value (extract_animation alloc baked anim_stack) (EAtom ''name'')
     = Some (make_string alloc (stack_name anim_stack))
   \<and> make_string alloc [] = enif_make_string []
   \<and> enif_make_string [] = ENil
   \<and> (str \<noteq> [] \<and> alloc (length str) \<longrightarrow> make_string alloc str = EBinary str)"
  by (simp add: get_name_node get_name_mesh get_name_material get_name_texture
      get_name_animation make_string_def enif_make_string_def)

theorem name_always_emitted_witness:
  "enif_get_map_value (extract_mesh (\<lambda>n. True) one_vertex_mesh) (EAtom ''name'')
     = Some (EBinary ''Cube'')
   \<and> enif_get_map_value (extract_mesh (\<lambda>n. True) (one_vertex_mesh\<lparr>mesh_name := []\<rparr>))
       (EAtom ''name'') = Some ENil"
  using name_always_emitted [where alloc = "\<lambda>n. True" and mesh = one_vertex_mesh
      and str = "''Cube''"]
    name_always_emitted [where alloc = "\<lambda>n. True"
      and mesh = "one_vertex_mesh\<lparr>mesh_name := []\<rparr>" and str = "''Cube''"]
  by (simp add: one_vertex_mesh_def)

section \<open>Order of the extracted keyframes\<close>

lemma enif_make_uint_inject [simp]: "enif_make_uint a = enif_make_uint b \<longleftrightarrow> a = b"
  by (simp add: enif_make_uint_def word_uint_eq_iff)

lemma list_elems_prepend:
  "list_elems (prepend_keyframes f ks acc) = map_option (\<lambda>r. map f ks @ r) (list_elems acc)"
  by (induction ks)
    (simp_all add: enif_make_list_cell_def option.map_comp comp_def option.map_ident)

lemma list_elems_all_keyframes:
  "list_elems (all_keyframes_of ns) = Some (concat (map node_keyframe_list ns))"
  by (induction ns)
    (simp_all add: baked_node_keyframes_def Let_def list_elems_prepend node_keyframe_list_def)

lemma keyframes_of_extract:
  "keyframes_of (extract_animation alloc baked st)
     = concat (map node_keyframe_list (baked_nodes baked))"
  by (simp add: keyframes_of_def extract_animation_def get_build_map enif_make_atom_def
      list_elems_all_keyframes)

lemma kf_translation:
  "keyframe_map_of nid (extract_vec3_keyframe k ''translation'') ''translation''
   = EMap [(EAtom ''node_id'', enif_make_uint nid), (EAtom ''time'', EDouble (vec3_time k)),
           (EAtom ''translation'', make_vec3 (vec3_value k))]"
  by (simp add: keyframe_map_of_def extract_vec3_keyframe_def copy_field_def
      enif_make_map_put_def enif_make_new_map_def enif_make_atom_def enif_get_map_value_def
      enif_make_double_def)

lemma kf_scale:
  "keyframe_map_of nid (extract_vec3_keyframe k ''scale'') ''scale''
   = EMap [(EAtom ''node_id'', enif_make_uint nid), (EAtom ''time'', EDouble (vec3_time k)),
           (EAtom ''scale'', make_vec3 (vec3_value k))]"
  by (simp add: keyframe_map_of_def extract_vec3_keyframe_def copy_field_def
      enif_make_map_put_def enif_make_new_map_def enif_make_atom_def enif_get_map_value_def
      enif_make_double_def)

lemma kf_rotation:
  "keyframe_map_of nid (extract_quat_keyframe k) ''rotation''
   = EMap [(EAtom ''node_id'', enif_make_uint nid), (EAtom ''time'', EDouble (quat_time k)),
           (EAtom ''rotation'', make_vec4 (quat_value k))]"
  by (simp add: keyframe_map_of_def extract_quat_keyframe_def copy_field_def
      enif_make_map_put_def enif_make_new_map_def enif_make_atom_def enif_get_map_value_def
      enif_make_double_def make_vec4_def)

lemma channel_append:
  "channel_keyframes nid f (xs @ ys) = channel_keyframes nid f xs @ channel_keyframes nid f ys"
  by (simp add: channel_keyframes_def)

lemma channel_concat:
  "channel_keyframes nid f (concat xss) = concat (map (channel_keyframes nid f) xss)"
  by (induction xss) (simp_all add: channel_append, simp add: channel_keyframes_def)

lemma channel_node_translation:
  "channel_keyframes nid ''translation'' (node_keyframe_list n)
   = (if baked_typed_id n = nid
      then map (\<lambda>k. keyframe_map_of nid (extract_vec3_keyframe k ''translation'')
                    ''translation'') (translation_keys n)
      else [])"
  by (auto simp: channel_keyframes_def node_keyframe_list_def kf_translation kf_scale
      kf_rotation enif_get_map_value_def filter_empty_conv)

lemma channel_node_rotation:
  "channel_keyframes nid ''rotation'' (node_keyframe_list n)
   = (if baked_typed_id n = nid
      then map (\<lambda>k. keyframe_map_of nid (extract_quat_keyframe k) ''rotation'')
             (rotation_keys n)
      else [])"
  by (auto simp: channel_keyframes_def node_keyframe_list_def kf_translation kf_scale
      kf_rotation enif_get_map_value_def filter_empty_conv)

lemma channel_node_scale:
  "channel_keyframes nid ''scale'' (node_keyframe_list n)
   = (if baked_typed_id n = nid
      then map (\<lambda>k. keyframe_map_of nid (extract_vec3_keyframe k ''scale'') ''scale'')
             (scale_keys n)
      else [])"
  by (auto simp: channel_keyframes_def node_keyframe_list_def kf_translation kf_scale
      kf_rotation enif_get_map_value_def filter_empty_conv)

text \<open>Among elements with distinct keys, selecting by the key of one of them selects it.\<close>

lemma concat_single:
  "distinct (map g ns) \<Longrightarrow> n \<in> set ns \<Longrightarrow>
   concat (map (\<lambda>m. if g m = g n then h m else []) ns) = h n"
proof (induction ns)
  case Nil
  then show ?case by simp
next
  case (Cons a ns)
  show ?case
  proof (cases "a = n")
    case True
    from Cons.prems True have notin: "g n \<notin> g ` set ns" by simp
    have "\<forall>m\<in>set ns. g m \<noteq> g n"
    proof (intro ballI notI)
      fix m assume "m \<in> set ns" "g m = g n"
      then have "g n \<in> g ` set ns" using imageI [of m "set ns" g] by simp
      with notin show False by simp
    qed
    then have "concat (map (\<lambda>m. if g m = g n then h m else []) ns) = []"
      by (induction ns) auto
    with True show ?thesis by simp
  next
    case False
    with Cons.prems have "n \<in> set ns" "distinct (map g ns)" "g a \<noteq> g n" by auto
    with Cons.IH show ?thesis by simp
  qed
qed

lemma channel_of_extract:
  assumes "distinct (map baked_typed_id (baked_nodes baked))" "n \<in> set (baked_nodes baked)"
    and sel: "\<And>m. channel_keyframes (baked_typed_id n) f (node_keyframe_list m)
                = (if baked_typed_id m = baked_typed_id n then h m else [])"
  shows "channel_keyframes (baked_typed_id n) f (keyframes_of (extract_animation alloc baked st))
           = h n"
proof -
  have "channel_keyframes (baked_typed_id n) f (keyframes_of (extract_animation alloc baked st))
          = concat (map (\<lambda>m. if baked_typed_id m = baked_typed_id n then h m else [])
              (baked_nodes baked))"
    by (simp add: keyframes_of_extract channel_concat comp_def sel cong: if_cong)
  also have "\<dots> = h n"
    using concat_single [OF assms(1,2), where h = h] by simp
  finally show ?thesis .
qed

lemma times_translation:
  "keyframe_times (map (\<lambda>k. keyframe_map_of nid (extract_vec3_keyframe k ''translation'')
      ''translation'') ks) = map vec3_time ks"
  by (induction ks)
    (simp_all add: keyframe_times_def List.map_filter_simps keyframe_time_def kf_translation
      enif_get_map_value_def enif_get_double_def)

lemma times_scale:
  "keyframe_times (map (\<lambda>k. keyframe_map_of nid (extract_vec3_keyframe k ''scale'') ''scale'')
      ks) = map vec3_time ks"
  by (induction ks)
    (simp_all add: keyframe_times_def List.map_filter_simps keyframe_time_def kf_scale
      enif_get_map_value_def enif_get_double_def)

lemma times_rotation:
  "keyframe_times (map (\<lambda>k. keyframe_map_of nid (extract_quat_keyframe k) ''rotation'') ks)
     = map quat_time ks"
  by (induction ks)
    (simp_all add: keyframe_times_def List.map_filter_simps keyframe_time_def kf_rotation
      enif_get_map_value_def enif_get_double_def)

text \<open>
  C8. In the keyframe list of an extracted animation, the keyframes of one node and one
  channel are exactly the node's baked samples of that channel, one keyframe per sample and
  in the samples' order, each with the sample's time and value. So their times are the
  samples' times in the same order, and they are non-decreasing whenever the baked samples
  are. The baked nodes are taken to have distinct ids (one baked node per scene node), and
  the ordering of the samples in time is the baker's.
\<close>

theorem keyframe_channel_order:
  assumes "distinct (map baked_typed_id (baked_nodes baked))"
    and "n \<in> set (baked_nodes baked)"
  shows
    "channel_keyframes (baked_typed_id n) ''translation''
         (keyframes_of (extract_animation alloc baked st))
       = map (\<lambda>k. EMap [(EAtom ''node_id'', enif_make_uint (baked_typed_id n)),
                        (EAtom ''time'', EDouble (vec3_time k)),
                        (EAtom ''translation'', make_vec3 (vec3_value k))])
           (translation_keys n)
     \<and> channel_keyframes (baked_typed_id n) ''rotation''
         (keyframes_of (extract_animation alloc baked st))
       = map (\<lambda>k. EMap [(EAtom ''node_id'', enif_make_uint (baked_typed_id n)),
                        (EAtom ''time'', EDouble (quat_time k)),
                        (EAtom ''rotation'', make_vec4 (quat_value k))])
           (rotation_keys n)
     \<and> channel_keyframes (baked_typed_id n) ''scale''
         (keyframes_of (extract_animation alloc baked st))
       = map (\<lambda>k. EMap [(EAtom ''node_id'', enif_make_uint (baked_typed_id n)),
                        (EAtom ''time'', EDouble (vec3_time k)),
                        (EAtom ''scale'', make_vec3 (vec3_value k))])
           (scale_keys n)
     \<and> keyframe_times (channel_keyframes (baked_typed_id n) ''translation''
         (keyframes_of (extract_animation alloc baked st))) = map vec3_time (translation_keys n)
     \<and> keyframe_times (channel_keyframes (baked_typed_id n) ''rotation''
         (keyframes_of (extract_animation alloc baked st))) = map quat_time (rotation_keys n)
     \<and> keyframe_times (channel_keyframes (baked_typed_id n) ''scale''
         (keyframes_of (extract_animation alloc baked st))) = map vec3_time (scale_keys n)
     \<and> (sorted (map vec3_time (translation_keys n))
          \<longrightarrow> sorted (keyframe_times (channel_keyframes (baked_typed_id n) ''translation''
                (keyframes_of (extract_animation alloc baked st)))))
     \<and> (sorted (map quat_time (rotation_keys n))
          \<longrightarrow> sorted (keyframe_times (channel_keyframes (baked_typed_id n) ''rotation''
                (keyframes_of (extract_animation alloc baked st)))))
     \<and> (sorted (map vec3_time (scale_keys n))
          \<longrightarrow> sorted (keyframe_times (channel_keyframes (baked_typed_id n) ''scale''
                (keyframes_of (extract_animation alloc baked st)))))"
proof -
  have t: "channel_keyframes (baked_typed_id n) ''translation''
             (keyframes_of (extract_animation alloc baked st))
           = map (\<lambda>k. keyframe_map_of (baked_typed_id n)
                        (extract_vec3_keyframe k ''translation'') ''translation'')
               (translation_keys n)"
    by (rule channel_of_extract [OF assms]) (simp add: channel_node_translation)
  have r: "channel_keyframes (baked_typed_id n) ''rotation''
             (keyframes_of (extract_animation alloc baked st))
           = map (\<lambda>k. keyframe_map_of (baked_typed_id n) (extract_quat_keyframe k) ''rotation'')
               (rotation_keys n)"
    by (rule channel_of_extract [OF assms]) (simp add: channel_node_rotation)
  have s: "channel_keyframes (baked_typed_id n) ''scale''
             (keyframes_of (extract_animation alloc baked st))
           = map (\<lambda>k. keyframe_map_of (baked_typed_id n) (extract_vec3_keyframe k ''scale'')
                        ''scale'')
               (scale_keys n)"
    by (rule channel_of_extract [OF assms]) (simp add: channel_node_scale)
  have t': "keyframe_times (channel_keyframes (baked_typed_id n) ''translation''
              (keyframes_of (extract_animation alloc baked st)))
            = map vec3_time (translation_keys n)"
    unfolding t by (rule times_translation)
  have r': "keyframe_times (channel_keyframes (baked_typed_id n) ''rotation''
              (keyframes_of (extract_animation alloc baked st)))
            = map quat_time (rotation_keys n)"
    unfolding r by (rule times_rotation)
  have s': "keyframe_times (channel_keyframes (baked_typed_id n) ''scale''
              (keyframes_of (extract_animation alloc baked st)))
            = map vec3_time (scale_keys n)"
    unfolding s by (rule times_scale)
  show ?thesis
    unfolding t' r' s' unfolding t r s
    by (simp add: kf_translation kf_rotation kf_scale)
qed

text \<open>On \<open>sample_baked_anim\<close> node 0 has translation samples at times 0 and 1, a rotation
  sample at 0 and a scale sample at 2; node 1 has a translation sample at 0.\<close>

theorem keyframe_channel_order_witness:
  "distinct (map baked_typed_id (baked_nodes sample_baked_anim))
   \<and> hd (baked_nodes sample_baked_anim) \<in> set (baked_nodes sample_baked_anim)
   \<and> baked_typed_id (hd (baked_nodes sample_baked_anim)) = 0
   \<and> keyframe_times (channel_keyframes 0 ''translation''
        (keyframes_of (extract_animation (\<lambda>n. True) sample_baked_anim
           \<lparr>stack_typed_id = 0, stack_name = ''Take 001''\<rparr>))) = [0, 1]
   \<and> sorted [0, 1 :: real]"
  using keyframe_channel_order [of sample_baked_anim "hd (baked_nodes sample_baked_anim)"
      "\<lambda>n. True" "\<lparr>stack_typed_id = 0, stack_name = ''Take 001''\<rparr>"]
  by (simp add: sample_baked_anim_def keyframe_times_def keyframe_time_def
      List.map_filter_simps enif_get_map_value_def enif_get_double_def)

section \<open>Facts about the builder\<close>

lemma length_build_meshes: "length (build_meshes body junk k entries) = length entries"
  by (induction entries arbitrary: k) simp_all

lemma nth_build_meshes:
  "i < length entries \<Longrightarrow> build_meshes body junk k entries ! i = body (junk (k + i)) (entries ! i)"
proof (induction entries arbitrary: k i)
  case Nil
  then show ?case by simp
next
  case (Cons e es)
  then show ?case by (cases i) simp_all
qed

lemma length_fill_ids: "length (fill_ids junk k entries) = length entries"
  by (induction entries arbitrary: k) simp_all

lemma nth_fill_ids:
  "j < length entries \<Longrightarrow>
   fill_ids junk k entries ! j
     = (case get_map_uint (entries ! j) ''id'' of Some v \<Rightarrow> v | None \<Rightarrow> junk (k + j))"
proof (induction entries arbitrary: k j)
  case Nil
  then show ?case by simp
next
  case (Cons e es)
  then show ?case by (cases j) (simp_all split: option.splits)
qed

lemma find_id_None: "wanted \<notin> set slots \<Longrightarrow> find_id slots wanted j = None"
  by (induction slots arbitrary: j) auto

lemma bad_arity_unset:
  assumes "get_map_list head key = Some values_list"
    and "enif_get_list_length values_list = Some len"
    and "len mod 3 \<noteq> 0 \<or> len = 0"
  shows "mesh_vec3_attribute initial key head = None"
  using assms by (auto simp: mesh_vec3_attribute_def Let_def)

lemma build_Some:
  "\<exists>scene. build_ufbxw_scene_from_map True mem m = Some scene"
  by (simp add: build_ufbxw_scene_from_map_def split: prod.splits)

lemma w_meshes_build:
  assumes "mesh_entries m = Some entries"
    and "build_ufbxw_scene_from_map True mem m = Some scene"
  shows "w_meshes scene =
     (case get_map_list m ''nodes'' of
        None \<Rightarrow> build_meshes build_mesh_no_nodes (junk_indices mem) 0 entries
      | Some nodes_list \<Rightarrow>
          (case list_elems nodes_list of
             None \<Rightarrow> []
           | Some node_entries \<Rightarrow> build_meshes build_mesh (junk_indices mem) 0 entries))"
  using assms
  by (auto simp: build_ufbxw_scene_from_map_def build_with_nodes_def Let_def
      split: option.splits prod.splits)

lemma mesh_entries_is_map: "mesh_entries m = Some entries \<Longrightarrow> enif_is_map m"
  by (cases m) (simp_all add: mesh_entries_def get_map_list_def enif_get_map_value_def enif_is_map_def)

lemma write_ok:
  assumes "enif_is_map m" "build_ufbxw_scene_from_map True mem m = Some scene"
    and "save scene (c_str path) \<lparr>opts_format = save_format_of fmt, opts_version = 7400\<rparr> = None"
  shows "write_fbx_nif True mem save [EBinary path, m, fmt]
           = Return (ETuple [EAtom ''ok'', enif_make_string (c_str path)])"
  using assms by (simp add: write_fbx_nif_def Let_def enif_make_atom_def)

lemma w_nodes_build:
  assumes "get_map_list m ''nodes'' = Some nodes_list" "list_elems nodes_list = Some node_entries"
    and "build_ufbxw_scene_from_map True mem m = Some scene"
  shows "length (w_nodes scene) = length node_entries"
    and "i < length node_entries \<Longrightarrow>
         wn_parent (w_nodes scene ! i)
           = wn_parent (set_parent (fill_ids (junk_node_ids mem) 0 node_entries)
               (node_entries ! i) (create_node (node_entries ! i)))"
  using assms
  by (auto simp: build_ufbxw_scene_from_map_def build_with_nodes_def Let_def connect_mesh_def
      split: option.splits prod.splits)

lemma list_elems_length_Suc:
  assumes "list_elems l = Some es" "length es = Suc k"
  obtains a l' es' where "l = ECons a l'" "es = a # es'" "list_elems l' = Some es'"
  using assms by (cases l) auto

lemma decode_vec3s_nth:
  "list_elems l = Some es \<Longrightarrow> length es = 3 * n \<Longrightarrow>
   decode_vec3s initial n l
     = map (\<lambda>v. (get_double_into (fst initial) (es ! (3 * v)),
                 get_double_into (fst (snd initial)) (es ! (3 * v + 1)),
                 get_double_into (snd (snd initial)) (es ! (3 * v + 2)))) [0..<n]"
proof (induction n arbitrary: l es)
  case 0
  then show ?case by simp
next
  case (Suc n)
  from Suc.prems obtain a l1 es1 where 1: "l = ECons a l1" "es = a # es1" "list_elems l1 = Some es1"
    by (auto elim: list_elems_length_Suc)
  with Suc.prems obtain b l2 es2 where 2: "l1 = ECons b l2" "es1 = b # es2" "list_elems l2 = Some es2"
    by (auto elim: list_elems_length_Suc)
  with 1 Suc.prems obtain c l3 es3 where 3: "l2 = ECons c l3" "es2 = c # es3" "list_elems l3 = Some es3"
    by (auto elim: list_elems_length_Suc)
  from 1 2 3 Suc.prems have len: "length es3 = 3 * n" by simp
  have "decode_vec3s initial (Suc n) l
        = (get_double_into (fst initial) a, get_double_into (fst (snd initial)) b,
           get_double_into (snd (snd initial)) c) # decode_vec3s initial n l3"
    by (simp add: 1 2 3 read_component_def enif_get_list_cell_def)
  also have "decode_vec3s initial n l3 = map (\<lambda>v. (get_double_into (fst initial) (es3 ! (3 * v)),
                 get_double_into (fst (snd initial)) (es3 ! (3 * v + 1)),
                 get_double_into (snd (snd initial)) (es3 ! (3 * v + 2)))) [0..<n]"
    by (rule Suc.IH [OF 3(3) len])
  finally show ?case
    by (simp add: 1 2 3 upt_conv_Cons map_Suc_upt [symmetric] del: upt_Suc)
qed

lemma decode_vec2s_nth:
  "list_elems l = Some es \<Longrightarrow> length es = 2 * n \<Longrightarrow>
   decode_vec2s n l
     = map (\<lambda>v. (get_double_into 0 (es ! (2 * v)), get_double_into 0 (es ! (2 * v + 1)))) [0..<n]"
proof (induction n arbitrary: l es)
  case 0
  then show ?case by simp
next
  case (Suc n)
  from Suc.prems obtain a l1 es1 where 1: "l = ECons a l1" "es = a # es1" "list_elems l1 = Some es1"
    by (auto elim: list_elems_length_Suc)
  with Suc.prems obtain b l2 es2 where 2: "l1 = ECons b l2" "es1 = b # es2" "list_elems l2 = Some es2"
    by (auto elim: list_elems_length_Suc)
  from 1 2 Suc.prems have len: "length es2 = 2 * n" by simp
  have "decode_vec2s (Suc n) l
        = (get_double_into 0 a, get_double_into 0 b) # decode_vec2s n l2"
    by (simp add: 1 2 read_component_def enif_get_list_cell_def)
  also have "decode_vec2s n l2 = map (\<lambda>v. (get_double_into 0 (es2 ! (2 * v)),
                 get_double_into 0 (es2 ! (2 * v + 1)))) [0..<n]"
    by (rule Suc.IH [OF 2(3) len])
  finally show ?case
    by (simp add: 1 2 upt_conv_Cons map_Suc_upt [symmetric] del: upt_Suc)
qed

lemma vec3_attribute_set:
  assumes "get_map_list head key = Some l" "list_elems l = Some es" "length es = 3 * n" "0 < n"
  shows "mesh_vec3_attribute initial key head
     = Some (map (\<lambda>v. (get_double_into (fst initial) (es ! (3 * v)),
                 get_double_into (fst (snd initial)) (es ! (3 * v + 1)),
                 get_double_into (snd (snd initial)) (es ! (3 * v + 2)))) [0..<n])"
  using assms decode_vec3s_nth [OF assms(2,3), of initial]
  by (simp add: mesh_vec3_attribute_def enif_get_list_length_def Let_def)

lemma uvs_set:
  assumes "get_map_list head ''texcoords'' = Some l" "list_elems l = Some es" "length es = 2 * n" "0 < n"
  shows "mesh_uvs head
     = Some (map (\<lambda>v. (get_double_into 0 (es ! (2 * v)), get_double_into 0 (es ! (2 * v + 1)))) [0..<n])"
  using assms decode_vec2s_nth [OF assms(2,3)]
  by (simp add: mesh_uvs_def enif_get_list_length_def Let_def)






lemma get_map_list_is_map: "get_map_list m key = Some v \<Longrightarrow> enif_is_map m"
  by (cases m) (simp_all add: get_map_list_def enif_get_map_value_def enif_is_map_def)

lemma built_mesh_cases:
  assumes "mesh_entries m = Some entries"
    and "build_ufbxw_scene_from_map True mem m = Some scene"
    and "i < length (w_meshes scene)"
  shows "i < length entries
     \<and> (if get_map_list m ''nodes'' = None
        then w_meshes scene ! i = build_mesh_no_nodes (junk_indices mem i) (entries ! i)
        else w_meshes scene ! i = build_mesh (junk_indices mem i) (entries ! i))"
  using assms(3) unfolding w_meshes_build [OF assms(1,2)]
  by (auto simp: length_build_meshes nth_build_meshes split: option.splits)

lemmas builder_defs = build_ufbxw_scene_from_map_def build_with_nodes_def mesh_entries_def
  get_map_list_def get_map_uint_def get_map_string_def get_map_vec3_def get_map_vec4_def
  enif_get_map_value_def enif_make_atom_def enif_make_list_cell_def enif_get_uint_def
  create_node_def set_parent_def node_mesh_id_def connect_mesh_def build_mesh_def
  build_mesh_no_nodes_def build_materials_def mesh_vec3_attribute_def mesh_uvs_def
  mesh_triangles_def enif_get_list_length_def read_component_def get_double_into_def
  enif_get_list_cell_def enif_get_double_def

section \<open>Connecting a mesh to a node\<close>

text \<open>
  C2. The claim: a node whose \<open>mesh_id\<close> equals the \<open>id\<close> of a mesh entry gets that mesh
  attached, for every id including 0. The builder keeps the node's mesh id in an array
  initialised with 0 for "no mesh" and skips every node whose slot holds 0, so a
  \<open>mesh_id\<close> of 0 is never attached. On the scene with one node (\<open>mesh_id\<close> k) and one mesh
  (\<open>id\<close> k): for k = 0 the node has no attribute, for k = 1 it has the mesh. The id 0 is
  an id the extractor emits: a parsed node carrying the mesh with typed id 0 is extracted
  with \<open>mesh_id\<close> 0.
\<close>

theorem mesh_id_zero_not_attached:
  "map_option (\<lambda>s. map wn_attribute (w_nodes s))
     (build_ufbxw_scene_from_map True mem (node_with_mesh_scene 0)) = Some [None]
   \<and> map_option (\<lambda>s. map wn_attribute (w_nodes s))
     (build_ufbxw_scene_from_map True mem (node_with_mesh_scene 1)) = Some [Some 0]
   \<and> enif_get_map_value (extract_node (\<lambda>n. True) root_node 0) (EAtom ''mesh_id'')
     = Some (EInt 0)"
proof -
  have "enif_get_map_value (extract_node (\<lambda>n. True) root_node 0) (EAtom ''mesh_id'')
          = Some (EInt 0)"
    by (simp add: get_build_map extract_node_def root_node_def enif_make_uint_def
        enif_make_atom_def)
  then show ?thesis
    by (simp add: node_with_mesh_scene_def builder_defs)
qed

section \<open>Meshes of a scene without nodes\<close>

text \<open>
  C3. The claim: a mesh entry's \<open>positions\<close>, \<open>indices\<close>, \<open>normals\<close> and \<open>texcoords\<close> are
  all decoded and set whether or not the scene has a \<open>nodes\<close> key. The branch for a scene
  without that key sets positions and indices only. The same mesh entry, with one vertex,
  one normal and one texture coordinate, keeps its normals and texture coordinates when the
  scene has \<open>nodes = []\<close> and loses both when the scene has no \<open>nodes\<close> key.
\<close>

theorem no_nodes_branch_drops_normals_and_uvs:
  "map_option w_meshes (build_ufbxw_scene_from_map True mem meshes_only_scene)
     = Some [\<lparr>wm_name = None, wm_vertices = Some [(1, 2, 3)], wm_triangles = None,
              wm_normals = None, wm_uvs = None\<rparr>]
   \<and> map_option w_meshes (build_ufbxw_scene_from_map True mem meshes_and_no_node_scene)
     = Some [\<lparr>wm_name = None, wm_vertices = Some [(1, 2, 3)], wm_triangles = None,
              wm_normals = Some [(0, 0, 1)], wm_uvs = Some [(0, 1)]\<rparr>]"
  by (simp add: meshes_only_scene_def meshes_and_no_node_scene_def full_mesh_entry_def
      builder_defs)

section \<open>The arity guard on positions\<close>

text \<open>
  C4. Take a mesh entry of the scene whose \<open>positions\<close> value is a list of a length that is
  not a multiple of 3, or is empty. The build returns a scene; wherever that mesh was built
  its vertices are not set; and the call returns \<open>{ok, path}\<close> when the writer succeeds on
  the built scene. The meshes are built, one per entry, when the scene has no \<open>nodes\<close> key or
  the value under it is a proper list.
\<close>

theorem positions_arity_guard:
  assumes "mesh_entries scene_data_map = Some entries"
    and "i < length entries"
    and "get_map_list (entries ! i) ''positions'' = Some positions_list"
    and "enif_get_list_length positions_list = Some positions_len"
    and "positions_len mod 3 \<noteq> 0 \<or> positions_len = 0"
  shows "\<exists>scene. build_ufbxw_scene_from_map True mem scene_data_map = Some scene
     \<and> (get_map_list scene_data_map ''nodes'' = None
          \<longrightarrow> length (w_meshes scene) = length entries)
     \<and> (\<forall>nodes_list node_entries.
           get_map_list scene_data_map ''nodes'' = Some nodes_list
           \<and> list_elems nodes_list = Some node_entries
          \<longrightarrow> length (w_meshes scene) = length entries)
     \<and> (i < length (w_meshes scene) \<longrightarrow> wm_vertices (w_meshes scene ! i) = None)
     \<and> (ufbxw_save_file scene (c_str path)
            \<lparr>opts_format = save_format_of format_atom, opts_version = 7400\<rparr> = None
          \<longrightarrow> write_fbx_nif True mem ufbxw_save_file [EBinary path, scene_data_map, format_atom]
              = Return (ETuple [EAtom ''ok'', enif_make_string (c_str path)]))"
proof -
  obtain scene where built: "build_ufbxw_scene_from_map True mem scene_data_map = Some scene"
    using build_Some by blast
  note meshes = w_meshes_build [OF assms(1) built]
  have unset: "mesh_vec3_attribute (0, 0, 0) ''positions'' (entries ! i) = None"
    by (rule bad_arity_unset [OF assms(3,4,5)])
  have "wm_vertices (w_meshes scene ! i) = None" if "i < length (w_meshes scene)"
    using built_mesh_cases [OF assms(1) built that] unset
    by (auto simp: build_mesh_def build_mesh_no_nodes_def split: if_splits)
  moreover have "length (w_meshes scene) = length entries"
    if "get_map_list scene_data_map ''nodes'' = None"
    using that by (simp add: meshes length_build_meshes)
  moreover have "length (w_meshes scene) = length entries"
    if "get_map_list scene_data_map ''nodes'' = Some nodes_list"
      "list_elems nodes_list = Some node_entries" for nodes_list node_entries
    using that by (simp add: meshes length_build_meshes)
  moreover have "write_fbx_nif True mem ufbxw_save_file [EBinary path, scene_data_map, format_atom]
              = Return (ETuple [EAtom ''ok'', enif_make_string (c_str path)])"
    if "ufbxw_save_file scene (c_str path)
            \<lparr>opts_format = save_format_of format_atom, opts_version = 7400\<rparr> = None"
    using write_ok [of scene_data_map mem scene ufbxw_save_file path format_atom]
      mesh_entries_is_map [OF assms(1)] built that
    by simp
  ultimately show ?thesis using built by (intro exI [of _ scene]) auto
qed

text \<open>On \<open>short_positions_scene\<close> the only mesh has four positions.\<close>

theorem positions_arity_guard_witness:
  "map_option (\<lambda>s. map wm_vertices (w_meshes s))
     (build_ufbxw_scene_from_map True no_junk short_positions_scene) = Some [None]
   \<and> write_fbx_nif True no_junk writer_ok
       [EBinary ''out.fbx'', short_positions_scene, EAtom ''binary'']
     = Return (ETuple [EAtom ''ok'', enif_make_string ''out.fbx''])"
proof -
  let ?entry = "EMap [(EAtom ''id'', EInt 0),
                      (EAtom ''positions'',
                         enif_make_list_from [EDouble 0, EDouble 0, EDouble 0, EDouble 1])]"
  have 1: "mesh_entries short_positions_scene = Some [?entry]"
    by (simp add: short_positions_scene_def builder_defs)
  have 2: "0 < length [?entry]" by simp
  have 3: "get_map_list ([?entry] ! 0) ''positions''
             = Some (enif_make_list_from [EDouble 0, EDouble 0, EDouble 0, EDouble 1])"
    by (simp add: builder_defs)
  have 4: "enif_get_list_length
             (enif_make_list_from [EDouble 0, EDouble 0, EDouble 0, EDouble 1]) = Some 4"
    by (simp add: builder_defs)
  have 5: "(4::nat) mod 3 \<noteq> 0 \<or> (4::nat) = 0" by simp
  from positions_arity_guard [OF 1 2 3 4 5, of no_junk writer_ok "''out.fbx''" "EAtom ''binary''"]
  obtain scene where
    s: "build_ufbxw_scene_from_map True no_junk short_positions_scene = Some scene"
      "get_map_list short_positions_scene ''nodes'' = None
         \<longrightarrow> length (w_meshes scene) = length [?entry]"
      "0 < length (w_meshes scene) \<longrightarrow> wm_vertices (w_meshes scene ! 0) = None"
      "write_fbx_nif True no_junk writer_ok
         [EBinary ''out.fbx'', short_positions_scene, EAtom ''binary'']
       = Return (ETuple [EAtom ''ok'', enif_make_string (c_str ''out.fbx'')])"
    by (auto simp: writer_ok_def)
  have "get_map_list short_positions_scene ''nodes'' = None"
    by (simp add: short_positions_scene_def builder_defs)
  with s(2) have len: "length (w_meshes scene) = 1" by simp
  with s(3) have "map wm_vertices (w_meshes scene) = [None]"
    by (cases "w_meshes scene") simp_all
  with s(1,4) show ?thesis by (simp add: c_str_def)
qed

section \<open>A parent that no node declares\<close>

text \<open>The search for a parent compares \<open>parent_id\<close> with every slot of the id array. When
  no slot holds it (for an entry without an unsigned-integer \<open>id\<close>: what the never-written
  slot holds), the node gets no parent and the build goes on.\<close>

lemma parent_unset_when_no_slot_matches:
  assumes "get_map_list scene_data_map ''nodes'' = Some nodes_list"
    and "list_elems nodes_list = Some node_entries"
    and "i < length node_entries"
    and "get_map_uint (node_entries ! i) ''parent_id'' = Some parent_id"
    and "\<forall>j<length node_entries.
           (case get_map_uint (node_entries ! j) ''id'' of
              Some declared \<Rightarrow> declared \<noteq> parent_id
            | None \<Rightarrow> junk_node_ids mem j \<noteq> parent_id)"
  shows "\<exists>scene. build_ufbxw_scene_from_map True mem scene_data_map = Some scene
     \<and> length (w_nodes scene) = length node_entries
     \<and> wn_parent (w_nodes scene ! i) = None
     \<and> (ufbxw_save_file scene (c_str path)
            \<lparr>opts_format = save_format_of format_atom, opts_version = 7400\<rparr> = None
          \<longrightarrow> write_fbx_nif True mem ufbxw_save_file [EBinary path, scene_data_map, format_atom]
              = Return (ETuple [EAtom ''ok'', enif_make_string (c_str path)]))"
proof -
  obtain scene where built: "build_ufbxw_scene_from_map True mem scene_data_map = Some scene"
    using build_Some by blast
  let ?ids = "fill_ids (junk_node_ids mem) 0 node_entries"
  have "parent_id \<notin> set ?ids"
  proof
    assume "parent_id \<in> set ?ids"
    then obtain j where j: "j < length node_entries" "?ids ! j = parent_id"
      by (auto simp: in_set_conv_nth length_fill_ids)
    with assms(5) show False
      by (auto simp: nth_fill_ids split: option.splits)
  qed
  then have "find_id ?ids parent_id 0 = None" by (rule find_id_None)
  with assms(4) have "set_parent ?ids (node_entries ! i) (create_node (node_entries ! i))
      = create_node (node_entries ! i)"
    by (simp add: set_parent_def)
  then have "wn_parent (w_nodes scene ! i) = None"
    using w_nodes_build(2) [OF assms(1,2) built assms(3)] by (simp add: create_node_def)
  moreover have "length (w_nodes scene) = length node_entries"
    by (rule w_nodes_build(1) [OF assms(1,2) built])
  moreover have "write_fbx_nif True mem ufbxw_save_file [EBinary path, scene_data_map, format_atom]
              = Return (ETuple [EAtom ''ok'', enif_make_string (c_str path)])"
    if "ufbxw_save_file scene (c_str path)
            \<lparr>opts_format = save_format_of format_atom, opts_version = 7400\<rparr> = None"
    using write_ok [of scene_data_map mem scene ufbxw_save_file path format_atom]
      get_map_list_is_map [OF assms(1)] built that
    by simp
  ultimately show ?thesis using built by (intro exI [of _ scene]) auto
qed

text \<open>
  C6. The claim: a node entry whose \<open>parent_id\<close> is present and is the declared \<open>id\<close> of no
  node entry is left unparented. The builder writes a slot of the id array only for an entry
  that has an unsigned-integer \<open>id\<close> and never initialises the array, and the search reads
  every slot. In \<open>missing_id_scene\<close> the first node declares no id and the second declares
  id 1 and names parent 0, so 0 is the declared id of no node; where the allocation holds 0
  in the first slot, the second node is given the first node as its parent. With every id
  declared (\<open>orphan_scene\<close>) the node that names an absent parent stays unparented.
\<close>

theorem undeclared_id_slot_matches_parent:
  "map (\<lambda>e. get_map_uint e ''id'')
       [EMap [(EAtom ''name'', EBinary ''noid'')],
        EMap [(EAtom ''id'', EInt 1), (EAtom ''parent_id'', EInt 0)]] = [None, Some 1]
   \<and> get_map_uint (EMap [(EAtom ''id'', EInt 1), (EAtom ''parent_id'', EInt 0)]) ''parent_id''
     = Some 0
   \<and> map_option (\<lambda>s. map wn_parent (w_nodes s))
       (build_ufbxw_scene_from_map True no_junk missing_id_scene) = Some [None, Some 0]
   \<and> map_option (\<lambda>s. map wn_parent (w_nodes s))
       (build_ufbxw_scene_from_map True no_junk orphan_scene) = Some [None, None]"
  by (simp add: missing_id_scene_def orphan_scene_def no_junk_def builder_defs)

section \<open>The save format\<close>





section \<open>Components that are not floats\<close>

text \<open>How the components of a built mesh are decoded. When the entry's \<open>positions\<close> value is
  a proper list of \<open>3 * n\<close> elements with \<open>n > 0\<close>, the vertices are \<open>n\<close> vectors, and
  component \<open>c\<close> of vector \<open>v\<close> is element \<open>3 * v + c\<close> of the list when that element is a
  float and 0 when it is anything else. In a scene with a \<open>nodes\<close> key the same holds for
  \<open>normals\<close>, where the third component defaults to 1, and for \<open>texcoords\<close> with two
  components a vector; in a scene without that key neither is set.\<close>

lemma built_mesh_components:
  assumes "mesh_entries scene_data_map = Some entries"
    and "build_ufbxw_scene_from_map True mem scene_data_map = Some scene"
    and "i < length (w_meshes scene)"
  shows
    "(get_map_list (entries ! i) ''positions'' = Some pl \<and> list_elems pl = Some ps
        \<and> length ps = 3 * np \<and> 0 < np
      \<longrightarrow> wm_vertices (w_meshes scene ! i)
          = Some (map (\<lambda>v. (get_double_into 0 (ps ! (3 * v)),
                            get_double_into 0 (ps ! (3 * v + 1)),
                            get_double_into 0 (ps ! (3 * v + 2)))) [0..<np]))
     \<and> (get_map_list scene_data_map ''nodes'' \<noteq> None
        \<and> get_map_list (entries ! i) ''normals'' = Some nl \<and> list_elems nl = Some ns
        \<and> length ns = 3 * nn \<and> 0 < nn
      \<longrightarrow> wm_normals (w_meshes scene ! i)
          = Some (map (\<lambda>v. (get_double_into 0 (ns ! (3 * v)),
                            get_double_into 0 (ns ! (3 * v + 1)),
                            get_double_into 1 (ns ! (3 * v + 2)))) [0..<nn]))
     \<and> (get_map_list scene_data_map ''nodes'' \<noteq> None
        \<and> get_map_list (entries ! i) ''texcoords'' = Some tcl \<and> list_elems tcl = Some tcs
        \<and> length tcs = 2 * nt \<and> 0 < nt
      \<longrightarrow> wm_uvs (w_meshes scene ! i)
          = Some (map (\<lambda>v. (get_double_into 0 (tcs ! (2 * v)),
                            get_double_into 0 (tcs ! (2 * v + 1)))) [0..<nt]))
     \<and> (get_map_list scene_data_map ''nodes'' = None
      \<longrightarrow> wm_normals (w_meshes scene ! i) = None \<and> wm_uvs (w_meshes scene ! i) = None)
     \<and> get_double_into initial (EDouble d) = d
     \<and> (enif_get_double t = None \<longrightarrow> get_double_into initial t = initial)
     \<and> enif_get_double (EInt k) = None"
proof -
  note cases = built_mesh_cases [OF assms]
  have none: "wm_normals (w_meshes scene ! i) = None \<and> wm_uvs (w_meshes scene ! i) = None"
    if "get_map_list scene_data_map ''nodes'' = None"
    using cases that by (simp add: build_mesh_no_nodes_def)
  have pos: "wm_vertices (w_meshes scene ! i)
               = mesh_vec3_attribute (0, 0, 0) ''positions'' (entries ! i)"
    using cases by (auto simp: build_mesh_def build_mesh_no_nodes_def split: if_splits)
  have nor: "wm_normals (w_meshes scene ! i)
               = mesh_vec3_attribute (0, 0, 1) ''normals'' (entries ! i)"
    if "get_map_list scene_data_map ''nodes'' \<noteq> None"
    using cases that by (auto simp: build_mesh_def)
  have uvs: "wm_uvs (w_meshes scene ! i) = mesh_uvs (entries ! i)"
    if "get_map_list scene_data_map ''nodes'' \<noteq> None"
    using cases that by (auto simp: build_mesh_def)
  have 1: "wm_vertices (w_meshes scene ! i)
          = Some (map (\<lambda>v. (get_double_into 0 (ps ! (3 * v)),
                            get_double_into 0 (ps ! (3 * v + 1)),
                            get_double_into 0 (ps ! (3 * v + 2)))) [0..<np])"
    if "get_map_list (entries ! i) ''positions'' = Some pl" "list_elems pl = Some ps"
      "length ps = 3 * np" "0 < np"
    unfolding pos using vec3_attribute_set [OF that, of "(0, 0, 0)"] by simp
  have 2: "wm_normals (w_meshes scene ! i)
          = Some (map (\<lambda>v. (get_double_into 0 (ns ! (3 * v)),
                            get_double_into 0 (ns ! (3 * v + 1)),
                            get_double_into 1 (ns ! (3 * v + 2)))) [0..<nn])"
    if "get_map_list scene_data_map ''nodes'' \<noteq> None"
      "get_map_list (entries ! i) ''normals'' = Some nl" "list_elems nl = Some ns"
      "length ns = 3 * nn" "0 < nn"
    unfolding nor [OF that(1)] using vec3_attribute_set [OF that(2-5), of "(0, 0, 1)"] by simp
  have 3: "wm_uvs (w_meshes scene ! i)
          = Some (map (\<lambda>v. (get_double_into 0 (tcs ! (2 * v)),
                            get_double_into 0 (tcs ! (2 * v + 1)))) [0..<nt])"
    if "get_map_list scene_data_map ''nodes'' \<noteq> None"
      "get_map_list (entries ! i) ''texcoords'' = Some tcl" "list_elems tcl = Some tcs"
      "length tcs = 2 * nt" "0 < nt"
    unfolding uvs [OF that(1)] by (rule uvs_set [OF that(2-5)])
  have 4: "get_double_into initial (EDouble d) = d"
    "enif_get_double t = None \<Longrightarrow> get_double_into initial t = initial"
    "enif_get_double (EInt k) = None"
    by (simp_all add: get_double_into_def enif_get_double_def)
  show ?thesis
    using 1 2 3 4 none by (intro conjI impI) (simp_all only: , (elim conjE, blast)+)
qed

text \<open>
  C9. The claim: when a \<open>positions\<close>, \<open>normals\<close> or \<open>texcoords\<close> list passes the arity check,
  an element that is not a float is decoded as the component's default and the attribute is
  still set. \<open>mixed_mesh_entry\<close> has the positions \<open>[1, 2.0, x]\<close>, the normals \<open>[0, 0, 5]\<close>
  and the texture coordinates \<open>[1.0, 2]\<close>, where only \<open>2.0\<close> and \<open>1.0\<close> are floats; each
  list passes its arity check. In the scene without a \<open>nodes\<close> key the vertices are set,
  with the defaults, and the normals and texture coordinates are not set. In the scene that
  also has \<open>nodes = []\<close> all three are set, with the defaults.
\<close>

theorem non_float_normals_and_uvs_unset_without_nodes:
  "map (\<lambda>key. case get_map_list mixed_mesh_entry key of
                 None \<Rightarrow> None
               | Some l \<Rightarrow> enif_get_list_length l) [''positions'', ''normals'', ''texcoords'']
     = [Some 3, Some 3, Some 2]
   \<and> map_option (\<lambda>s. map (\<lambda>m. (wm_vertices m, wm_normals m, wm_uvs m)) (w_meshes s))
       (build_ufbxw_scene_from_map True mem mixed_no_nodes_scene)
     = Some [(Some [(0, 2, 0)], None, None)]
   \<and> map_option (\<lambda>s. map (\<lambda>m. (wm_vertices m, wm_normals m, wm_uvs m)) (w_meshes s))
       (build_ufbxw_scene_from_map True mem mixed_scene)
     = Some [(Some [(0, 2, 0)], Some [(0, 0, 1)], Some [(1, 0)])]"
  by (simp add: mixed_no_nodes_scene_def mixed_scene_def mixed_mesh_entry_def builder_defs)

end
